theory Spec2Isabelle
  imports Main
begin

section \<open>Python values, exceptions and the operations the source applies to them\<close>

text \<open>
  The values that flow through the handlers of \<^verbatim>\<open>main.py\<close> are decoded JSON documents
  and the tuples, strings and dictionaries the adapters return. A dictionary is an
  association list in insertion order (the order Python keeps and serialises); a lookup takes
  the first entry of a key. JSON numbers are integers here: no function of the source computes
  with a number.
\<close>

datatype pyval =
    PNone
  | PBool bool
  | PInt int
  | PStr string
  | PList "pyval list"
  | PTuple "pyval list"
  | PDict "(string \<times> pyval) list"

text \<open>
  An exception is its class name and the text \<^verbatim>\<open>str(e)\<close> gives. The source only ever
  catches \<^verbatim>\<open>Exception\<close> as a whole and reads \<^verbatim>\<open>str(e)\<close>; every exception
  here is an \<^verbatim>\<open>Exception\<close> (an interrupt of the process is not modelled). The texts of
  the interpreter's own exceptions are those of CPython 3.11.
\<close>

datatype exn = Exn string string

fun exn_str :: "exn \<Rightarrow> string" where
  "exn_str (Exn c m) = m"

definition py_quote :: "string \<Rightarrow> string" where
  "py_quote s = CHR 0x27 # s @ [CHR 0x27]"

text \<open>
  \<^verbatim>\<open>str(KeyError(k))\<close> is \<^verbatim>\<open>repr(k)\<close>: the key between single quotes, for the
  literal keys the source subscripts with.
\<close>

definition KeyError :: "string \<Rightarrow> exn" where
  "KeyError k = Exn ''KeyError'' (py_quote k)"

definition TypeError :: "string \<Rightarrow> exn" where
  "TypeError m = Exn ''TypeError'' m"

definition IndexError :: "string \<Rightarrow> exn" where
  "IndexError m = Exn ''IndexError'' m"

definition ValueError :: "string \<Rightarrow> exn" where
  "ValueError m = Exn ''ValueError'' m"

definition AttributeError :: "string \<Rightarrow> exn" where
  "AttributeError m = Exn ''AttributeError'' m"

fun type_name :: "pyval \<Rightarrow> string" where
  "type_name PNone = ''NoneType''"
| "type_name (PBool b) = ''bool''"
| "type_name (PInt i) = ''int''"
| "type_name (PStr s) = ''str''"
| "type_name (PList xs) = ''list''"
| "type_name (PTuple xs) = ''tuple''"
| "type_name (PDict d) = ''dict''"

text \<open>Truth value testing, as \<^verbatim>\<open>not x\<close> and \<^verbatim>\<open>if x\<close> apply it.\<close>

fun truthy :: "pyval \<Rightarrow> bool" where
  "truthy PNone = False"
| "truthy (PBool b) = b"
| "truthy (PInt i) = (i \<noteq> 0)"
| "truthy (PStr s) = (s \<noteq> [])"
| "truthy (PList xs) = (xs \<noteq> [])"
| "truthy (PTuple xs) = (xs \<noteq> [])"
| "truthy (PDict d) = (d \<noteq> [])"

text \<open>\<^verbatim>\<open>v[k]\<close> for a string literal \<^verbatim>\<open>k\<close>.\<close>

fun getitem_str :: "pyval \<Rightarrow> string \<Rightarrow> exn + pyval" where
  "getitem_str (PDict d) k = (case map_of d k of Some v \<Rightarrow> Inr v | None \<Rightarrow> Inl (KeyError k))"
| "getitem_str (PList xs) k = Inl (TypeError ''list indices must be integers or slices, not str'')"
| "getitem_str (PTuple xs) k = Inl (TypeError ''tuple indices must be integers or slices, not str'')"
| "getitem_str (PStr s) k = Inl (TypeError (''string indices must be integers, not '' @ py_quote ''str''))"
| "getitem_str v k = Inl (TypeError (py_quote (type_name v) @ '' object is not subscriptable''))"

text \<open>\<^verbatim>\<open>v[0]\<close>.\<close>

fun getitem_0 :: "pyval \<Rightarrow> exn + pyval" where
  "getitem_0 (PList xs) = (case xs of x # _ \<Rightarrow> Inr x | [] \<Rightarrow> Inl (IndexError ''list index out of range''))"
| "getitem_0 (PTuple xs) = (case xs of x # _ \<Rightarrow> Inr x | [] \<Rightarrow> Inl (IndexError ''tuple index out of range''))"
| "getitem_0 (PStr s) = (case s of c # _ \<Rightarrow> Inr (PStr [c]) | [] \<Rightarrow> Inl (IndexError ''string index out of range''))"
| "getitem_0 (PDict d) = Inl (Exn ''KeyError'' ''0'')"
| "getitem_0 v = Inl (TypeError (py_quote (type_name v) @ '' object is not subscriptable''))"

text \<open>\<^verbatim>\<open>v.get(k, default)\<close>: only a dictionary has the method.\<close>

fun py_get :: "pyval \<Rightarrow> string \<Rightarrow> pyval \<Rightarrow> exn + pyval" where
  "py_get (PDict d) k dflt = Inr (case map_of d k of Some v \<Rightarrow> v | None \<Rightarrow> dflt)"
| "py_get v k dflt =
     Inl (AttributeError (py_quote (type_name v) @ '' object has no attribute '' @ py_quote ''get''))"

text \<open>\<^verbatim>\<open>a, b = v\<close>: unpacking into exactly two targets.\<close>

fun unpack_items :: "pyval list \<Rightarrow> exn + pyval \<times> pyval" where
  "unpack_items [] = Inl (ValueError ''not enough values to unpack (expected 2, got 0)'')"
| "unpack_items [a] = Inl (ValueError ''not enough values to unpack (expected 2, got 1)'')"
| "unpack_items [a, b] = Inr (a, b)"
| "unpack_items (a # b # c # xs) = Inl (ValueError ''too many values to unpack (expected 2)'')"

fun unpack2 :: "pyval \<Rightarrow> exn + pyval \<times> pyval" where
  "unpack2 (PTuple xs) = unpack_items xs"
| "unpack2 (PList xs) = unpack_items xs"
| "unpack2 (PStr s) = unpack_items (map (\<lambda>c. PStr [c]) s)"
| "unpack2 (PDict d) = unpack_items (map (\<lambda>kv. PStr (fst kv)) d)"
| "unpack2 v = Inl (TypeError (''cannot unpack non-iterable '' @ type_name v @ '' object''))"

text \<open>
  An f-string is kept as its parts, the literal text and the interpolated values, in order:
  the rendering of a value (\<^verbatim>\<open>str\<close>, \<^verbatim>\<open>repr\<close>) is not modelled.
\<close>

datatype fpart = Lit string | Val pyval

type_synonym fstring = "fpart list"

text \<open>\<^verbatim>\<open>str(x)\<close> of a setting read by \<^verbatim>\<open>os.getenv\<close>: a string, or \<^verbatim>\<open>None\<close>.\<close>

fun str_opt :: "string option \<Rightarrow> string" where
  "str_opt None = ''None''"
| "str_opt (Some s) = s"

fun val_opt :: "string option \<Rightarrow> pyval" where
  "val_opt None = PNone"
| "val_opt (Some s) = PStr s"

section \<open>The audit log and the trace of calls\<close>

text \<open>
  \<^verbatim>\<open>logging.basicConfig(filename="logs/audit.log", level=logging.INFO, ...)\<close> sends every
  record of level INFO and above, from any module of the process, to the one audit file; every
  record is one line of it. The state of the service is that file, and, to speak about which
  collaborator was invoked, the sequence of calls made so far.
\<close>

datatype level = INFO | WARNING | ERROR

datatype log_record = LogRecord level fstring

datatype event = Call string string

record state =
  audit_log :: "log_record list"
  calls :: "event list"

definition logging :: "level \<Rightarrow> fstring \<Rightarrow> state \<Rightarrow> state" where
  "logging l msg s = s\<lparr>audit_log := audit_log s @ [LogRecord l msg]\<rparr>"

definition record_call :: "string \<Rightarrow> string \<Rightarrow> state \<Rightarrow> state" where
  "record_call obj f s = s\<lparr>calls := calls s @ [Call obj f]\<rparr>"

section \<open>The network and the settings: \<^verbatim>\<open>config/settings.py\<close>\<close>

record http_request =
  url :: string
  headers :: "(string \<times> fstring) list"
  data :: "pyval option"
  json :: "pyval option"

text \<open>A response: its \<^verbatim>\<open>status_code\<close> and what \<^verbatim>\<open>r.json()\<close> returns or raises.\<close>

record response =
  status_code :: int
  resp_json :: "exn + pyval"

text \<open>
  The world outside the process: the environment variables \<^verbatim>\<open>config/settings.py\<close> reads
  (\<^verbatim>\<open>OPA_URL\<close> has a default, the others may be \<^verbatim>\<open>None\<close>) and the answer of
  \<^verbatim>\<open>requests.post\<close> to each request: an exception or a response.
\<close>

record world =
  ENTRA_TENANT_ID :: "string option"
  ENTRA_CLIENT_ID :: "string option"
  ENTRA_CLIENT_SECRET :: "string option"
  SAILPOINT_API_KEY :: "string option"
  OPA_URL :: string
  requests_post :: "http_request \<Rightarrow> exn + response"

section \<open>Modules as the handlers see them\<close>

text \<open>
  Every call site of \<^verbatim>\<open>main.py\<close> into a collaborator has the shape
  \<^verbatim>\<open>M.f(user.dict()) if M else default\<close>: a module global, an attribute, one argument.
  A module is therefore its name and the one-argument functions it exports; a call returns or
  raises, and may write records to the audit log on the way (the adapters log through the same
  \<^verbatim>\<open>logging\<close> root). Looking up an attribute the module does not define raises
  \<^verbatim>\<open>AttributeError\<close>.
\<close>

type_synonym callable = "pyval \<Rightarrow> (exn + pyval) \<times> log_record list"

datatype module = Module string "(string \<times> callable) list"

fun module_attr :: "module \<Rightarrow> string \<Rightarrow> exn + callable" where
  "module_attr (Module name attrs) f =
     (case map_of attrs f of
        Some c \<Rightarrow> Inr c
      | None \<Rightarrow> Inl (AttributeError (''module '' @ py_quote name @ '' has no attribute '' @ py_quote f)))"

section \<open>\<^verbatim>\<open>provision/entra.py\<close>\<close>

text \<open>
  \<^verbatim>\<open>
  def get_graph_token():
      url = f"https://login.microsoftonline.com/{ENTRA_TENANT_ID}/oauth2/v2.0/token"
      data = {'client_id': ENTRA_CLIENT_ID, 'scope': 'https://graph.microsoft.com/.default',
              'client_secret': ENTRA_CLIENT_SECRET, 'grant_type': 'client_credentials'}
      r = requests.post(url, data=data)
      return r.json()['access_token']
  \<close>
\<close>

definition get_graph_token :: "world \<Rightarrow> exn + pyval" where
  "get_graph_token W =
     (case requests_post W
        \<lparr>url = ''https://login.microsoftonline.com/'' @ str_opt (ENTRA_TENANT_ID W) @ ''/oauth2/v2.0/token'',
         headers = [],
         data = Some (PDict [(''client_id'', val_opt (ENTRA_CLIENT_ID W)),
                             (''scope'', PStr ''https://graph.microsoft.com/.default''),
                             (''client_secret'', val_opt (ENTRA_CLIENT_SECRET W)),
                             (''grant_type'', PStr ''client_credentials'')]),
         json = None\<rparr> of
        Inl e \<Rightarrow> Inl e
      | Inr r \<Rightarrow>
          (case resp_json r of
             Inl e \<Rightarrow> Inl e
           | Inr body \<Rightarrow> getitem_str body ''access_token''))"

text \<open>
  \<^verbatim>\<open>
  def create_entra_user(user):
      token = get_graph_token()
      url = "https://graph.microsoft.com/v1.0/users"
      headers = {"Authorization": f"Bearer {token}", "Content-Type": "application/json"}
      payload = {
          "accountEnabled": True,
          "displayName": user["name"],
          "mailNickname": user["nickname"],
          "userPrincipalName": user["email"],
          "passwordProfile": {"forceChangePasswordNextSignIn": True,
                              "password": user["temp_password"]}
      }
      r = requests.post(url, headers=headers, json=payload)
      return r.status_code, r.json()
  \<close>
  No statement of the function is inside a \<^verbatim>\<open>try\<close>.
\<close>

definition create_entra_user :: "world \<Rightarrow> pyval \<Rightarrow> exn + pyval" where
  "create_entra_user W user =
     (case get_graph_token W of Inl e \<Rightarrow> Inl e | Inr token \<Rightarrow>
     (case getitem_str user ''name'' of Inl e \<Rightarrow> Inl e | Inr displayName \<Rightarrow>
     (case getitem_str user ''nickname'' of Inl e \<Rightarrow> Inl e | Inr mailNickname \<Rightarrow>
     (case getitem_str user ''email'' of Inl e \<Rightarrow> Inl e | Inr userPrincipalName \<Rightarrow>
     (case getitem_str user ''temp_password'' of Inl e \<Rightarrow> Inl e | Inr password \<Rightarrow>
     (case requests_post W
        \<lparr>url = ''https://graph.microsoft.com/v1.0/users'',
         headers = [(''Authorization'', [Lit ''Bearer '', Val token]),
                    (''Content-Type'', [Lit ''application/json''])],
         data = None,
         json = Some (PDict [(''accountEnabled'', PBool True),
                             (''displayName'', displayName),
                             (''mailNickname'', mailNickname),
                             (''userPrincipalName'', userPrincipalName),
                             (''passwordProfile'',
                                PDict [(''forceChangePasswordNextSignIn'', PBool True),
                                       (''password'', password)])])\<rparr> of
        Inl e \<Rightarrow> Inl e
      | Inr r \<Rightarrow>
     (case resp_json r of
        Inl e \<Rightarrow> Inl e
      | Inr body \<Rightarrow> Inr (PTuple [PInt (status_code r), body]))))))))"

text \<open>
  The module as \<^verbatim>\<open>main.py\<close> sees it: \<^verbatim>\<open>create_entra_user\<close> is its only function of
  one argument; it defines no \<^verbatim>\<open>delete_entra_user\<close> and no \<^verbatim>\<open>update_entra_user\<close>.
\<close>

definition entra_module :: "world \<Rightarrow> module" where
  "entra_module W = Module ''provision.entra'' [(''create_entra_user'', \<lambda>user. (create_entra_user W user, []))]"

section \<open>\<^verbatim>\<open>provision/sailpoint.py\<close>\<close>

text \<open>
  \<^verbatim>\<open>
  def push_to_sailpoint(user):
      try:
          url = "https://your-sailpoint-instance.com/api/v3/users"
          headers = {"Authorization": f"Bearer {SAILPOINT_API_KEY}",
                     "Content-Type": "application/json"}
          payload = {
              "name": user["name"],
              "email": user["email"],
              "displayName": user["name"],
              "externalId": user.get("employee_id", user["email"]),
              "attributes": {"jobTitle": user.get("title"), "department": user.get("department"),
                             "location": user.get("location"), "costcenter": user.get("costcenter")}
          }
          response = requests.post(url, headers=headers, json=payload)
          return response.status_code, response.json()
      except Exception as e:
          logging.error(f"SailPoint API error: {str(e)}")
          return 500, {"error": str(e)}
  \<close>
  The body of the \<^verbatim>\<open>try\<close> first, then the function with its handler.
\<close>

definition push_to_sailpoint_body :: "world \<Rightarrow> pyval \<Rightarrow> exn + pyval" where
  "push_to_sailpoint_body W user =
     (case getitem_str user ''name'' of Inl e \<Rightarrow> Inl e | Inr name \<Rightarrow>
     (case getitem_str user ''email'' of Inl e \<Rightarrow> Inl e | Inr email' \<Rightarrow>
     (case getitem_str user ''name'' of Inl e \<Rightarrow> Inl e | Inr displayName \<Rightarrow>
     (case getitem_str user ''email'' of Inl e \<Rightarrow> Inl e | Inr fallback \<Rightarrow>
     (case py_get user ''employee_id'' fallback of Inl e \<Rightarrow> Inl e | Inr externalId \<Rightarrow>
     (case py_get user ''title'' PNone of Inl e \<Rightarrow> Inl e | Inr jobTitle' \<Rightarrow>
     (case py_get user ''department'' PNone of Inl e \<Rightarrow> Inl e | Inr department' \<Rightarrow>
     (case py_get user ''location'' PNone of Inl e \<Rightarrow> Inl e | Inr location' \<Rightarrow>
     (case py_get user ''costcenter'' PNone of Inl e \<Rightarrow> Inl e | Inr costcenter' \<Rightarrow>
     (case requests_post W
        \<lparr>url = ''https://your-sailpoint-instance.com/api/v3/users'',
         headers = [(''Authorization'', [Lit ''Bearer '', Val (val_opt (SAILPOINT_API_KEY W))]),
                    (''Content-Type'', [Lit ''application/json''])],
         data = None,
         json = Some (PDict [(''name'', name),
                             (''email'', email'),
                             (''displayName'', displayName),
                             (''externalId'', externalId),
                             (''attributes'',
                                PDict [(''jobTitle'', jobTitle'),
                                       (''department'', department'),
                                       (''location'', location'),
                                       (''costcenter'', costcenter')])])\<rparr> of
        Inl e \<Rightarrow> Inl e
      | Inr r \<Rightarrow>
     (case resp_json r of
        Inl e \<Rightarrow> Inl e
      | Inr body \<Rightarrow> Inr (PTuple [PInt (status_code r), body]))))))))))))"

definition push_to_sailpoint :: "world \<Rightarrow> callable" where
  "push_to_sailpoint W user =
     (case push_to_sailpoint_body W user of
        Inr v \<Rightarrow> (Inr v, [])
      | Inl e \<Rightarrow>
          (Inr (PTuple [PInt 500, PDict [(''error'', PStr (exn_str e))]]),
           [LogRecord ERROR [Lit ''SailPoint API error: '', Val (PStr (exn_str e))]]))"

text \<open>The module defines no \<^verbatim>\<open>delete_user\<close> and no \<^verbatim>\<open>update_user_attributes\<close>.\<close>

definition sailpoint_module :: "world \<Rightarrow> module" where
  "sailpoint_module W = Module ''provision.sailpoint'' [(''push_to_sailpoint'', push_to_sailpoint W)]"

section \<open>\<^verbatim>\<open>provision/aws.py\<close>\<close>

text \<open>
  The module defines one function, \<^verbatim>\<open>assign_aws_permission_set(identity_center_user_id,
  permission_set_arn, instance_arn)\<close>, of three arguments, which \<^verbatim>\<open>main.py\<close> never
  names. It defines none of \<^verbatim>\<open>create_user\<close>, \<^verbatim>\<open>delete_user\<close>,
  \<^verbatim>\<open>update_user\<close>: seen from the call sites of \<^verbatim>\<open>main.py\<close> it exports nothing.
\<close>

definition aws_module :: module where
  "aws_module = Module ''provision.aws'' []"

section \<open>\<^verbatim>\<open>logic/opa_enforcer.py\<close>\<close>

text \<open>
  \<^verbatim>\<open>
  def enforce_policy(user_data):
      try:
          response = requests.post(OPA_URL, json={"input": user_data})
          return response.json().get("result", {})
      except Exception as e:
          logging.error(f"OPA policy enforcement failed: {str(e)}")
          return {"allow": False, "reason": "OPA policy check failed"}
  \<close>
\<close>

definition enforce_policy_body :: "world \<Rightarrow> pyval \<Rightarrow> exn + pyval" where
  "enforce_policy_body W user_data =
     (case requests_post W
        \<lparr>url = OPA_URL W, headers = [], data = None,
         json = Some (PDict [(''input'', user_data)])\<rparr> of
        Inl e \<Rightarrow> Inl e
      | Inr r \<Rightarrow>
     (case resp_json r of
        Inl e \<Rightarrow> Inl e
      | Inr body \<Rightarrow> py_get body ''result'' (PDict [])))"

definition enforce_policy :: "world \<Rightarrow> callable" where
  "enforce_policy W user_data =
     (case enforce_policy_body W user_data of
        Inr v \<Rightarrow> (Inr v, [])
      | Inl e \<Rightarrow>
          (Inr (PDict [(''allow'', PBool False), (''reason'', PStr ''OPA policy check failed'')]),
           [LogRecord ERROR [Lit ''OPA policy enforcement failed: '', Val (PStr (exn_str e))]]))"

definition opa_enforcer_module :: "world \<Rightarrow> module" where
  "opa_enforcer_module W = Module ''logic.opa_enforcer'' [(''enforce_policy'', enforce_policy W)]"

section \<open>\<^verbatim>\<open>main.py\<close>: the request schema\<close>

text \<open>
  \<^verbatim>\<open>
  class UserModel(BaseModel):
      email: str
      firstName: Optional[str] = None
      ... lastName, jobTitle, department, location, employeeId, managerId, costcenter ...
      region: Optional[str] = None
  \<close>
\<close>

record UserModel =
  email :: string
  firstName :: "string option"
  lastName :: "string option"
  jobTitle :: "string option"
  department :: "string option"
  location :: "string option"
  employeeId :: "string option"
  managerId :: "string option"
  costcenter :: "string option"
  region :: "string option"

text \<open>\<^verbatim>\<open>user.dict()\<close>: the declared fields, in declaration order, and no other key.\<close>

definition UserModel_dict :: "UserModel \<Rightarrow> pyval" where
  "UserModel_dict user =
     PDict [(''email'', PStr (email user)),
            (''firstName'', val_opt (firstName user)),
            (''lastName'', val_opt (lastName user)),
            (''jobTitle'', val_opt (jobTitle user)),
            (''department'', val_opt (department user)),
            (''location'', val_opt (location user)),
            (''employeeId'', val_opt (employeeId user)),
            (''managerId'', val_opt (managerId user)),
            (''costcenter'', val_opt (costcenter user)),
            (''region'', val_opt (region user))]"

text \<open>
  The framework validates the decoded body against the schema before it calls a handler. A
  field of type \<^verbatim>\<open>str\<close> takes any string as it is: the schema declares no format for
  \<^verbatim>\<open>email\<close>. A required field that is absent or \<^verbatim>\<open>null\<close> fails the validation; an
  optional one is then \<^verbatim>\<open>None\<close>. What the library makes of a value that is neither a
  string nor \<^verbatim>\<open>null\<close> (it differs between its versions) is the parameter \<open>co\<close>:
  \<open>None\<close> where it refuses the value. A body that is not an object fails. Keys the schema does
  not declare are ignored.
\<close>

definition required_str :: "(pyval \<Rightarrow> string option) \<Rightarrow> (string \<times> pyval) list \<Rightarrow> string \<Rightarrow> string option" where
  "required_str co d k =
     (case map_of d k of
        None \<Rightarrow> None
      | Some PNone \<Rightarrow> None
      | Some (PStr s) \<Rightarrow> Some s
      | Some v \<Rightarrow> co v)"

definition optional_str :: "(pyval \<Rightarrow> string option) \<Rightarrow> (string \<times> pyval) list \<Rightarrow> string \<Rightarrow> string option option" where
  "optional_str co d k =
     (case map_of d k of
        None \<Rightarrow> Some None
      | Some PNone \<Rightarrow> Some None
      | Some (PStr s) \<Rightarrow> Some (Some s)
      | Some v \<Rightarrow> map_option Some (co v))"

fun parse_UserModel :: "(pyval \<Rightarrow> string option) \<Rightarrow> pyval \<Rightarrow> UserModel option" where
  "parse_UserModel co (PDict d) =
     Option.bind (required_str co d ''email'') (\<lambda>v0.
     Option.bind (optional_str co d ''firstName'') (\<lambda>v1.
     Option.bind (optional_str co d ''lastName'') (\<lambda>v2.
     Option.bind (optional_str co d ''jobTitle'') (\<lambda>v3.
     Option.bind (optional_str co d ''department'') (\<lambda>v4.
     Option.bind (optional_str co d ''location'') (\<lambda>v5.
     Option.bind (optional_str co d ''employeeId'') (\<lambda>v6.
     Option.bind (optional_str co d ''managerId'') (\<lambda>v7.
     Option.bind (optional_str co d ''costcenter'') (\<lambda>v8.
     Option.bind (optional_str co d ''region'') (\<lambda>v9.
       Some \<lparr>email = v0, firstName = v1, lastName = v2, jobTitle = v3, department = v4,
             location = v5, employeeId = v6, managerId = v7, costcenter = v8,
             region = v9\<rparr>))))))))))"
| "parse_UserModel co v = None"

section \<open>\<^verbatim>\<open>main.py\<close>: the globals\<close>

text \<open>A call of \<^verbatim>\<open>openai.ChatCompletion.create(model=..., messages=[{role, content}])\<close>.\<close>

record chat_request =
  model :: string
  messages :: "(string \<times> fstring) list"

text \<open>
  The globals the handlers read: the key from the environment, the \<^verbatim>\<open>openai\<close> module
  (\<^verbatim>\<open>None\<close> when its import failed; the module is its \<^verbatim>\<open>ChatCompletion.create\<close>), the
  four collaborator modules (\<open>None\<close> stands for a binding that tests false), and the
  validation parameter of the schema.
\<close>

record env =
  OPENAI_API_KEY :: "string option"
  openai :: "(chat_request \<Rightarrow> exn + pyval) option"
  opa_enforcer :: "module option"
  entra :: "module option"
  aws :: "module option"
  sailpoint :: "module option"
  str_coerce :: "pyval \<Rightarrow> string option"

text \<open>
  \<^verbatim>\<open>safe_import\<close> binds a \<^verbatim>\<open>mock.Mock()\<close> to the global of a module that cannot be
  imported, and \<^verbatim>\<open>patch_mock_returns\<close> fixes what the attributes the handlers call return:
  \<^verbatim>\<open>
  opa_enforcer.enforce_policy.return_value = {"allow": True}
  entra.create_entra_user.return_value = ("success", "User created")
  entra.delete_entra_user.return_value = "success"
  entra.update_entra_user.return_value = "success"
  aws.create_user.return_value = "success"
  aws.delete_user.return_value = "success"
  aws.update_user.return_value = "success"
  sailpoint.push_to_sailpoint.return_value = "User pushed"
  sailpoint.delete_user.return_value = "success"
  sailpoint.update_user_attributes.return_value = "success"
  \<close>
  The stand-ins list these attributes only (no handler calls another one).
  The handlers are modelled for any binding of the globals; which bindings the import of
  \<^verbatim>\<open>main.py\<close> leaves is the subject of the section on the import, below.
\<close>

definition returns :: "pyval \<Rightarrow> callable" where
  "returns v = (\<lambda>arg. (Inr v, []))"

definition mock_opa_enforcer :: module where
  "mock_opa_enforcer = Module ''Mock'' [(''enforce_policy'', returns (PDict [(''allow'', PBool True)]))]"

definition mock_entra :: module where
  "mock_entra = Module ''Mock''
     [(''create_entra_user'', returns (PTuple [PStr ''success'', PStr ''User created''])),
      (''delete_entra_user'', returns (PStr ''success'')),
      (''update_entra_user'', returns (PStr ''success''))]"

definition mock_aws :: module where
  "mock_aws = Module ''Mock''
     [(''create_user'', returns (PStr ''success'')),
      (''delete_user'', returns (PStr ''success'')),
      (''update_user'', returns (PStr ''success''))]"

definition mock_sailpoint :: module where
  "mock_sailpoint = Module ''Mock''
     [(''push_to_sailpoint'', returns (PStr ''User pushed'')),
      (''delete_user'', returns (PStr ''success'')),
      (''update_user_attributes'', returns (PStr ''success''))]"

text \<open>
  The expression \<^verbatim>\<open>M.f(arg) if M else default\<close> of the handlers, for the global named
  \<open>g\<close>: the call is recorded when the function is entered, and what it logged is appended to
  the audit log.
\<close>

definition call_if_present ::
  "string \<Rightarrow> module option \<Rightarrow> string \<Rightarrow> pyval \<Rightarrow> pyval \<Rightarrow> state \<Rightarrow> (exn + pyval) \<times> state" where
  "call_if_present g M f arg dflt s =
     (case M of
        None \<Rightarrow> (Inr dflt, s)
      | Some m \<Rightarrow>
          (case module_attr m f of
             Inl e \<Rightarrow> (Inl e, s)
           | Inr c \<Rightarrow>
               (case c arg of
                  (r, logs) \<Rightarrow> (r, (record_call g f s)\<lparr>audit_log := audit_log s @ logs\<rparr>))))"

section \<open>\<^verbatim>\<open>main.py\<close>: the import\<close>

text \<open>
  \<^verbatim>\<open>
  def safe_import(module_name, alias=None):
      try:
          module = __import__(module_name, fromlist=[''])
          globals()[alias or module_name] = module
      except ImportError:
          from unittest import mock
          globals()[alias or module_name] = mock.Mock()

  safe_import("provision.entra", "entra")
  safe_import("provision.aws", "aws")
  safe_import("provision.sailpoint", "sailpoint")
  safe_import("logic.opa_enforcer", "opa_enforcer")

  def patch_mock_returns():
      if isinstance(opa_enforcer, object):
          opa_enforcer.enforce_policy.return_value = {"allow": True}
      if isinstance(entra, object):
          entra.create_entra_user.return_value = ("success", "User created")
          ...
  patch_mock_returns()
  \<close>
  What the process is installed with decides which imports succeed:
  \<^verbatim>\<open>provision/entra.py\<close>, \<^verbatim>\<open>provision/sailpoint.py\<close> and
  \<^verbatim>\<open>logic/opa_enforcer.py\<close> import \<^verbatim>\<open>requests\<close> (and \<^verbatim>\<open>config.settings\<close>, which
  imports nothing but \<^verbatim>\<open>os\<close>), \<^verbatim>\<open>provision/aws.py\<close> imports \<^verbatim>\<open>boto3\<close>.
\<close>

record install =
  requests_installed :: bool
  boto3_installed :: bool
  network :: world
  getenv_OPENAI_API_KEY :: "string option"
  import_openai :: "(chat_request \<Rightarrow> exn + pyval) option"
  coerce :: "pyval \<Rightarrow> string option"

datatype bound = Imported module | Mocked

definition safe_import :: "bool \<Rightarrow> module \<Rightarrow> bound" where
  "safe_import importable m = (if importable then Imported m else Mocked)"

text \<open>
  \<^verbatim>\<open>isinstance(x, object)\<close> is true of every object, so each assignment of
  \<^verbatim>\<open>patch_mock_returns\<close> runs on whatever is bound. \<^verbatim>\<open>M.f.return_value = v\<close> first reads
  \<^verbatim>\<open>M.f\<close>: on a \<^verbatim>\<open>Mock\<close> that creates the attribute, whose call then returns
  \<^verbatim>\<open>v\<close>; on an imported module it raises \<^verbatim>\<open>AttributeError\<close> when the module does not
  define \<^verbatim>\<open>f\<close>, and otherwise sets an attribute of the function that no call reads.
\<close>

fun read_attrs :: "module \<Rightarrow> string list \<Rightarrow> exn + module" where
  "read_attrs m [] = Inr m"
| "read_attrs m (f # fs) = (case module_attr m f of Inl e \<Rightarrow> Inl e | Inr c \<Rightarrow> read_attrs m fs)"

fun patch_returns :: "bound \<Rightarrow> (string \<times> pyval) list \<Rightarrow> exn + module" where
  "patch_returns Mocked rs = Inr (Module ''Mock'' (map (\<lambda>fv. (fst fv, returns (snd fv))) rs))"
| "patch_returns (Imported m) rs = read_attrs m (map fst rs)"

text \<open>
  The import of \<^verbatim>\<open>main.py\<close>: an exception, and then no request is ever served, or the
  globals the handlers run with. A \<^verbatim>\<open>Mock\<close> tests true.
\<close>

definition startup :: "install \<Rightarrow> exn + env" where
  "startup I =
     (case patch_returns (safe_import (requests_installed I) (opa_enforcer_module (network I)))
             [(''enforce_policy'', PDict [(''allow'', PBool True)])] of
        Inl e \<Rightarrow> Inl e | Inr opa_enforcer' \<Rightarrow>
     (case patch_returns (safe_import (requests_installed I) (entra_module (network I)))
             [(''create_entra_user'', PTuple [PStr ''success'', PStr ''User created'']),
              (''delete_entra_user'', PStr ''success''),
              (''update_entra_user'', PStr ''success'')] of
        Inl e \<Rightarrow> Inl e | Inr entra' \<Rightarrow>
     (case patch_returns (safe_import (boto3_installed I) aws_module)
             [(''create_user'', PStr ''success''),
              (''delete_user'', PStr ''success''),
              (''update_user'', PStr ''success'')] of
        Inl e \<Rightarrow> Inl e | Inr aws' \<Rightarrow>
     (case patch_returns (safe_import (requests_installed I) (sailpoint_module (network I)))
             [(''push_to_sailpoint'', PStr ''User pushed''),
              (''delete_user'', PStr ''success''),
              (''update_user_attributes'', PStr ''success'')] of
        Inl e \<Rightarrow> Inl e | Inr sailpoint' \<Rightarrow>
        Inr \<lparr>OPENAI_API_KEY = getenv_OPENAI_API_KEY I, openai = import_openai I,
             opa_enforcer = Some opa_enforcer', entra = Some entra', aws = Some aws',
             sailpoint = Some sailpoint', str_coerce = coerce I\<rparr>))))"

section \<open>\<^verbatim>\<open>main.py\<close>: the advisory recommender\<close>

text \<open>
  \<^verbatim>\<open>
  def get_ai_access_recommendation(user_dict):
      if not OPENAI_API_KEY:
          return {"error": "Missing OpenAI API key"}
      if not openai:
          return {"error": "openai module not found"}
      openai.api_key = OPENAI_API_KEY
      prompt = f"""
      Given the following user profile, suggest access entitlements:
      {user_dict}
      Return a JSON with recommended entitlements.
      """
      try:
          response = openai.ChatCompletion.create(
              model="gpt-4", messages=[{"role": "user", "content": prompt}])
          result = response['choices'][0]['message']['content']
          return {"entitlements": result}
      except Exception as e:
          logging.error(f"AI error: {e}")
          return {"error": str(e)}
  \<close>
\<close>

definition prompt :: "pyval \<Rightarrow> fstring" where
  "prompt user_dict =
     [Lit (CHR 0x0A # ''    Given the following user profile, suggest access entitlements:'' @ CHR 0x0A # ''    ''),
      Val user_dict,
      Lit (CHR 0x0A # ''    Return a JSON with recommended entitlements.'' @ CHR 0x0A # ''    '')]"

definition ai_try_body :: "(chat_request \<Rightarrow> exn + pyval) \<Rightarrow> pyval \<Rightarrow> exn + pyval" where
  "ai_try_body create user_dict =
     (case create \<lparr>model = ''gpt-4'', messages = [(''user'', prompt user_dict)]\<rparr> of
        Inl e \<Rightarrow> Inl e
      | Inr response \<Rightarrow>
     (case getitem_str response ''choices'' of Inl e \<Rightarrow> Inl e | Inr choices \<Rightarrow>
     (case getitem_0 choices of Inl e \<Rightarrow> Inl e | Inr choice \<Rightarrow>
     (case getitem_str choice ''message'' of Inl e \<Rightarrow> Inl e | Inr message \<Rightarrow>
     (case getitem_str message ''content'' of Inl e \<Rightarrow> Inl e | Inr result \<Rightarrow>
        Inr (PDict [(''entitlements'', result)]))))))"

definition get_ai_access_recommendation :: "env \<Rightarrow> pyval \<Rightarrow> state \<Rightarrow> (exn + pyval) \<times> state" where
  "get_ai_access_recommendation E user_dict s0 =
     (let s = record_call ''main'' ''get_ai_access_recommendation'' s0 in
      if \<not> truthy (val_opt (OPENAI_API_KEY E)) then
        (Inr (PDict [(''error'', PStr ''Missing OpenAI API key'')]), s)
      else
        (case openai E of
           None \<Rightarrow> (Inr (PDict [(''error'', PStr ''openai module not found'')]), s)
         | Some create \<Rightarrow>
             (let s1 = record_call ''openai'' ''ChatCompletion.create'' s in
              case ai_try_body create user_dict of
                Inr v \<Rightarrow> (Inr v, s1)
              | Inl e \<Rightarrow>
                  (Inr (PDict [(''error'', PStr (exn_str e))]),
                   logging ERROR [Lit ''AI error: '', Val (PStr (exn_str e))] s1))))"

section \<open>\<^verbatim>\<open>logic/ai_recommender.py\<close>\<close>

text \<open>
  The recommender that \<^verbatim>\<open>Final_main.py\<close> calls (\<^verbatim>\<open>main.py\<close> has its own, above):
  \<^verbatim>\<open>
  def get_access_recommendation(user_profile):
      prompt = f"""
      Recommend roles and access for:
      Job Title: {user_profile.get('title', '')}
      Department: {user_profile.get('department', '')}
      Level: {user_profile.get('level', '')}
      Region: {user_profile.get('location', '')}
      """
      try:
          response = openai.ChatCompletion.create(
              model="gpt-4", messages=[{"role": "user", "content": prompt}])
          return response['choices'][0]['message']['content']
      except Exception as e:
          logging.error(f"LLM error: {str(e)}")
          return f"Error during LLM access recommendation: {str(e)}"
  \<close>
  The prompt is built outside the \<^verbatim>\<open>try\<close>.
\<close>

definition recommendation_body :: "(chat_request \<Rightarrow> exn + pyval) \<Rightarrow> fstring \<Rightarrow> exn + pyval" where
  "recommendation_body create content =
     (case create \<lparr>model = ''gpt-4'', messages = [(''user'', content)]\<rparr> of
        Inl e \<Rightarrow> Inl e
      | Inr response \<Rightarrow>
     (case getitem_str response ''choices'' of Inl e \<Rightarrow> Inl e | Inr choices \<Rightarrow>
     (case getitem_0 choices of Inl e \<Rightarrow> Inl e | Inr choice \<Rightarrow>
     (case getitem_str choice ''message'' of Inl e \<Rightarrow> Inl e | Inr message \<Rightarrow>
        getitem_str message ''content''))))"

definition get_access_recommendation :: "(chat_request \<Rightarrow> exn + pyval) \<Rightarrow> callable" where
  "get_access_recommendation create user_profile =
     (case py_get user_profile ''title'' (PStr []) of Inl e \<Rightarrow> (Inl e, []) | Inr title \<Rightarrow>
     (case py_get user_profile ''department'' (PStr []) of Inl e \<Rightarrow> (Inl e, []) | Inr department' \<Rightarrow>
     (case py_get user_profile ''level'' (PStr []) of Inl e \<Rightarrow> (Inl e, []) | Inr level' \<Rightarrow>
     (case py_get user_profile ''location'' (PStr []) of Inl e \<Rightarrow> (Inl e, []) | Inr location' \<Rightarrow>
     (case recommendation_body create
             [Lit (CHR 0x0A # ''    Recommend roles and access for:'' @ CHR 0x0A # ''    Job Title: ''),
              Val title,
              Lit (CHR 0x0A # ''    Department: ''), Val department',
              Lit (CHR 0x0A # ''    Level: ''), Val level',
              Lit (CHR 0x0A # ''    Region: ''), Val location',
              Lit (CHR 0x0A # ''    '')] of
        Inr v \<Rightarrow> (Inr v, [])
      | Inl e \<Rightarrow>
          (Inr (PStr (''Error during LLM access recommendation: '' @ exn_str e)),
           [LogRecord ERROR [Lit ''LLM error: '', Val (PStr (exn_str e))]]))))))"

section \<open>\<^verbatim>\<open>main.py\<close>: the handlers\<close>

text \<open>
  \<^verbatim>\<open>
  @app.post("/provision/user")
  async def provision_user(user: UserModel):
      logging.info(f"Received provisioning request for: {user.email}")
      ai_access = get_ai_access_recommendation(user.dict())
      logging.info(f"AI access recommendation: {ai_access}")
      policy_check = opa_enforcer.enforce_policy(user.dict()) if opa_enforcer else {"allow": True}
      if not policy_check.get("allow", False):
          reason = policy_check.get("reason", "Policy Violation")
          logging.warning(f"Access denied due to policy: {reason}")
          return {"status": "denied", "reason": reason}
      entra_status, entra_result = entra.create_entra_user(user.dict()) if entra else ("error", "module missing")
      aws_status = aws.create_user(user.dict()) if aws else "module missing"
      sailpoint_result = sailpoint.push_to_sailpoint(user.dict()) if sailpoint else "module missing"
      logging.info(f"Provisioning complete: Entra={entra_status}, AWS={aws_status}, SailPoint={sailpoint_result}")
      return {"entra_status": entra_status, "entra_result": entra_result, "aws_status": aws_status,
              "ai_access": ai_access, "policy_check": policy_check, "sailpoint_result": sailpoint_result}
  \<close>
  The handler has no \<^verbatim>\<open>try\<close>: an exception of any step ends it there.
\<close>

definition provision_user :: "env \<Rightarrow> UserModel \<Rightarrow> state \<Rightarrow> (exn + pyval) \<times> state" where
  "provision_user E user s0 =
     (let s1 = logging INFO [Lit ''Received provisioning request for: '', Val (PStr (email user))] s0 in
      case get_ai_access_recommendation E (UserModel_dict user) s1 of
        (Inl e, s2) \<Rightarrow> (Inl e, s2)
      | (Inr ai_access, s2) \<Rightarrow>
     (let s3 = logging INFO [Lit ''AI access recommendation: '', Val ai_access] s2 in
      case call_if_present ''opa_enforcer'' (opa_enforcer E) ''enforce_policy''
             (UserModel_dict user) (PDict [(''allow'', PBool True)]) s3 of
        (Inl e, s4) \<Rightarrow> (Inl e, s4)
      | (Inr policy_check, s4) \<Rightarrow>
     (case py_get policy_check ''allow'' (PBool False) of
        Inl e \<Rightarrow> (Inl e, s4)
      | Inr allow \<Rightarrow>
          if \<not> truthy allow then
            (case py_get policy_check ''reason'' (PStr ''Policy Violation'') of
               Inl e \<Rightarrow> (Inl e, s4)
             | Inr reason \<Rightarrow>
                 (Inr (PDict [(''status'', PStr ''denied''), (''reason'', reason)]),
                  logging WARNING [Lit ''Access denied due to policy: '', Val reason] s4))
          else
     (case call_if_present ''entra'' (entra E) ''create_entra_user''
             (UserModel_dict user) (PTuple [PStr ''error'', PStr ''module missing'']) s4 of
        (Inl e, s5) \<Rightarrow> (Inl e, s5)
      | (Inr entra_pair, s5) \<Rightarrow>
     (case unpack2 entra_pair of
        Inl e \<Rightarrow> (Inl e, s5)
      | Inr (entra_status, entra_result) \<Rightarrow>
     (case call_if_present ''aws'' (aws E) ''create_user''
             (UserModel_dict user) (PStr ''module missing'') s5 of
        (Inl e, s6) \<Rightarrow> (Inl e, s6)
      | (Inr aws_status, s6) \<Rightarrow>
     (case call_if_present ''sailpoint'' (sailpoint E) ''push_to_sailpoint''
             (UserModel_dict user) (PStr ''module missing'') s6 of
        (Inl e, s7) \<Rightarrow> (Inl e, s7)
      | (Inr sailpoint_result, s7) \<Rightarrow>
          (Inr (PDict [(''entra_status'', entra_status),
                       (''entra_result'', entra_result),
                       (''aws_status'', aws_status),
                       (''ai_access'', ai_access),
                       (''policy_check'', policy_check),
                       (''sailpoint_result'', sailpoint_result)]),
           logging INFO [Lit ''Provisioning complete: Entra='', Val entra_status,
                         Lit '', AWS='', Val aws_status,
                         Lit '', SailPoint='', Val sailpoint_result] s7))))))))"

text \<open>
  \<^verbatim>\<open>
  @app.post("/deprovision/user")
  async def deprovision_user(user: UserModel):
      entra_status = entra.delete_entra_user(user.dict()) if entra else "module missing"
      aws_status = aws.delete_user(user.dict()) if aws else "module missing"
      sailpoint_status = sailpoint.delete_user(user.dict()) if sailpoint else "module missing"
      logging.info(f"Deprovisioned user: {user.email}, Entra={entra_status}, AWS={aws_status}, SailPoint={sailpoint_status}")
      return {"entra_status": entra_status, "aws_status": aws_status, "sailpoint_status": sailpoint_status}
  \<close>
  \<^verbatim>\<open>update_user\<close> is the same text with \<^verbatim>\<open>update_entra_user\<close>, \<^verbatim>\<open>update_user\<close>,
  \<^verbatim>\<open>update_user_attributes\<close> and the message \<^verbatim>\<open>Updated user\<close>.
\<close>

definition deprovision_user :: "env \<Rightarrow> UserModel \<Rightarrow> state \<Rightarrow> (exn + pyval) \<times> state" where
  "deprovision_user E user s0 =
     (case call_if_present ''entra'' (entra E) ''delete_entra_user''
             (UserModel_dict user) (PStr ''module missing'') s0 of
        (Inl e, s1) \<Rightarrow> (Inl e, s1)
      | (Inr entra_status, s1) \<Rightarrow>
     (case call_if_present ''aws'' (aws E) ''delete_user''
             (UserModel_dict user) (PStr ''module missing'') s1 of
        (Inl e, s2) \<Rightarrow> (Inl e, s2)
      | (Inr aws_status, s2) \<Rightarrow>
     (case call_if_present ''sailpoint'' (sailpoint E) ''delete_user''
             (UserModel_dict user) (PStr ''module missing'') s2 of
        (Inl e, s3) \<Rightarrow> (Inl e, s3)
      | (Inr sailpoint_status, s3) \<Rightarrow>
          (Inr (PDict [(''entra_status'', entra_status),
                       (''aws_status'', aws_status),
                       (''sailpoint_status'', sailpoint_status)]),
           logging INFO [Lit ''Deprovisioned user: '', Val (PStr (email user)),
                         Lit '', Entra='', Val entra_status,
                         Lit '', AWS='', Val aws_status,
                         Lit '', SailPoint='', Val sailpoint_status] s3))))"

definition update_user :: "env \<Rightarrow> UserModel \<Rightarrow> state \<Rightarrow> (exn + pyval) \<times> state" where
  "update_user E user s0 =
     (case call_if_present ''entra'' (entra E) ''update_entra_user''
             (UserModel_dict user) (PStr ''module missing'') s0 of
        (Inl e, s1) \<Rightarrow> (Inl e, s1)
      | (Inr entra_status, s1) \<Rightarrow>
     (case call_if_present ''aws'' (aws E) ''update_user''
             (UserModel_dict user) (PStr ''module missing'') s1 of
        (Inl e, s2) \<Rightarrow> (Inl e, s2)
      | (Inr aws_status, s2) \<Rightarrow>
     (case call_if_present ''sailpoint'' (sailpoint E) ''update_user_attributes''
             (UserModel_dict user) (PStr ''module missing'') s2 of
        (Inl e, s3) \<Rightarrow> (Inl e, s3)
      | (Inr sailpoint_status, s3) \<Rightarrow>
          (Inr (PDict [(''entra_status'', entra_status),
                       (''aws_status'', aws_status),
                       (''sailpoint_status'', sailpoint_status)]),
           logging INFO [Lit ''Updated user: '', Val (PStr (email user)),
                         Lit '', Entra='', Val entra_status,
                         Lit '', AWS='', Val aws_status,
                         Lit '', SailPoint='', Val sailpoint_status] s3))))"

section \<open>The endpoints\<close>

text \<open>
  The framework serialises what a handler returns: a tuple (and a list) becomes a JSON array, a
  dictionary an object of the serialised values, any other value of the model itself.
\<close>

fun jsonable_encoder :: "pyval \<Rightarrow> pyval" where
  "jsonable_encoder (PTuple xs) = PList (map jsonable_encoder xs)"
| "jsonable_encoder (PList xs) = PList (map jsonable_encoder xs)"
| "jsonable_encoder (PDict d) = PDict (map (\<lambda>kv. (fst kv, jsonable_encoder (snd kv))) d)"
| "jsonable_encoder v = v"

text \<open>
  What the caller of an endpoint gets: the rejection of a body that fails the schema (the
  handler is then never entered), the failure of the request when the handler raised, or the
  handler's value, serialised.
\<close>

datatype failure = RequestValidationError | Unhandled exn

datatype operation = Create | Update | Delete

fun handler :: "operation \<Rightarrow> env \<Rightarrow> UserModel \<Rightarrow> state \<Rightarrow> (exn + pyval) \<times> state" where
  "handler Create = provision_user"
| "handler Update = update_user"
| "handler Delete = deprovision_user"

definition endpoint :: "operation \<Rightarrow> env \<Rightarrow> pyval \<Rightarrow> state \<Rightarrow> (failure + pyval) \<times> state" where
  "endpoint op E body s =
     (case parse_UserModel (str_coerce E) body of
        None \<Rightarrow> (Inl RequestValidationError, s)
      | Some user \<Rightarrow>
          (case handler op E user s of
             (Inl e, s') \<Rightarrow> (Inl (Unhandled e), s')
           | (Inr v, s') \<Rightarrow> (Inr (jsonable_encoder v), s')))"

section \<open>Notions the properties are stated with\<close>

text \<open>
  What \<^verbatim>\<open>M.f(arg) if M else default\<close> evaluates to and logs, without the state: the
  answer of a collaborator to a request.
\<close>

definition module_call :: "module option \<Rightarrow> string \<Rightarrow> pyval \<Rightarrow> pyval \<Rightarrow> (exn + pyval) \<times> log_record list" where
  "module_call M f arg dflt =
     (case M of
        None \<Rightarrow> (Inr dflt, [])
      | Some m \<Rightarrow> (case module_attr m f of Inl e \<Rightarrow> (Inl e, []) | Inr c \<Rightarrow> c arg))"

text \<open>The calls into the three backend adapters, among the calls made so far.\<close>

fun is_backend_call :: "event \<Rightarrow> bool" where
  "is_backend_call (Call g f) = (g = ''entra'' \<or> g = ''aws'' \<or> g = ''sailpoint'')"

definition backend_calls :: "state \<Rightarrow> event list" where
  "backend_calls s = filter is_backend_call (calls s)"

text \<open>The keys of a returned dictionary, in order (the empty list for any other value).\<close>

fun dict_keys :: "pyval \<Rightarrow> string list" where
  "dict_keys (PDict d) = map fst d"
| "dict_keys v = []"

text \<open>The call a module global leads to: none when the global tests false or lacks the attribute.\<close>

fun invoked :: "string \<Rightarrow> module option \<Rightarrow> string \<Rightarrow> event list" where
  "invoked g None f = []"
| "invoked g (Some m) f = (case module_attr m f of Inl e \<Rightarrow> [] | Inr c \<Rightarrow> [Call g f])"

text \<open>The request \<^verbatim>\<open>enforce_policy\<close> sends to the policy service.\<close>

definition opa_request :: "world \<Rightarrow> pyval \<Rightarrow> http_request" where
  "opa_request W user_data =
     \<lparr>url = OPA_URL W, headers = [], data = None, json = Some (PDict [(''input'', user_data)])\<rparr>"

text \<open>What the three adapter calls of an operation write to the audit log themselves.\<close>

fun adapter_records :: "operation \<Rightarrow> env \<Rightarrow> UserModel \<Rightarrow> log_record list" where
  "adapter_records Create E user =
     snd (module_call (entra E) ''create_entra_user'' (UserModel_dict user) (PTuple [PStr ''error'', PStr ''module missing''])) @
     snd (module_call (aws E) ''create_user'' (UserModel_dict user) (PStr ''module missing'')) @
     snd (module_call (sailpoint E) ''push_to_sailpoint'' (UserModel_dict user) (PStr ''module missing''))"
| "adapter_records Update E user =
     snd (module_call (entra E) ''update_entra_user'' (UserModel_dict user) (PStr ''module missing'')) @
     snd (module_call (aws E) ''update_user'' (UserModel_dict user) (PStr ''module missing'')) @
     snd (module_call (sailpoint E) ''update_user_attributes'' (UserModel_dict user) (PStr ''module missing''))"
| "adapter_records Delete E user =
     snd (module_call (entra E) ''delete_entra_user'' (UserModel_dict user) (PStr ''module missing'')) @
     snd (module_call (aws E) ''delete_user'' (UserModel_dict user) (PStr ''module missing'')) @
     snd (module_call (sailpoint E) ''delete_user'' (UserModel_dict user) (PStr ''module missing''))"

text \<open>The keys of the aggregate each handler returns, as its \<^verbatim>\<open>return\<close> statement lists them.\<close>

fun outcome_keys :: "operation \<Rightarrow> string list" where
  "outcome_keys Create = [''entra_status'', ''entra_result'', ''aws_status'', ''ai_access'',
                          ''policy_check'', ''sailpoint_result'']"
| "outcome_keys Update = [''entra_status'', ''aws_status'', ''sailpoint_status'']"
| "outcome_keys Delete = [''entra_status'', ''aws_status'', ''sailpoint_status'']"

text \<open>The calls of an operation into the three backends, in the order of the handler's statements.\<close>

fun backend_operations :: "operation \<Rightarrow> event list" where
  "backend_operations Create = [Call ''entra'' ''create_entra_user'', Call ''aws'' ''create_user'',
                                Call ''sailpoint'' ''push_to_sailpoint'']"
| "backend_operations Update = [Call ''entra'' ''update_entra_user'', Call ''aws'' ''update_user'',
                                Call ''sailpoint'' ''update_user_attributes'']"
| "backend_operations Delete = [Call ''entra'' ''delete_entra_user'', Call ''aws'' ''delete_user'',
                                Call ''sailpoint'' ''delete_user'']"

text \<open>
  The test of \<^verbatim>\<open>provision_user\<close> on the policy's answer,
  \<^verbatim>\<open>not policy_check.get("allow", False)\<close>: it raises, or tells whether the handler
  returns the denial.
\<close>

definition policy_denies :: "pyval \<Rightarrow> exn + bool" where
  "policy_denies policy_check =
     (case py_get policy_check ''allow'' (PBool False) of
        Inl e \<Rightarrow> Inl e
      | Inr allow \<Rightarrow> Inr (\<not> truthy allow))"

section \<open>Concrete worlds and requests\<close>

definition state0 :: state where
  "state0 = \<lparr>audit_log = [], calls = []\<rparr>"

definition alice :: UserModel where
  "alice = \<lparr>email = ''alice@example.com'', firstName = Some ''Alice'', lastName = None,
             jobTitle = None, department = None, location = None, employeeId = None,
             managerId = None, costcenter = None, region = None\<rparr>"

definition alice_body :: pyval where
  "alice_body = PDict [(''email'', PStr ''alice@example.com''), (''firstName'', PStr ''Alice'')]"

text \<open>A network on which every request is answered 200 with the given JSON document.\<close>

definition answering :: "pyval \<Rightarrow> world" where
  "answering body =
     \<lparr>ENTRA_TENANT_ID = Some ''tenant'', ENTRA_CLIENT_ID = Some ''client'',
      ENTRA_CLIENT_SECRET = Some ''secret'', SAILPOINT_API_KEY = Some ''key'',
      OPA_URL = ''http://localhost:8181/v1/data/access/policy'',
      requests_post = (\<lambda>req. Inr \<lparr>status_code = 200, resp_json = Inr body\<rparr>)\<rparr>"

text \<open>A network on which every request fails to connect.\<close>

definition unreachable :: world where
  "unreachable =
     \<lparr>ENTRA_TENANT_ID = Some ''tenant'', ENTRA_CLIENT_ID = Some ''client'',
      ENTRA_CLIENT_SECRET = Some ''secret'', SAILPOINT_API_KEY = Some ''key'',
      OPA_URL = ''http://localhost:8181/v1/data/access/policy'',
      requests_post = (\<lambda>req. Inl (Exn ''ConnectionError'' ''connection refused''))\<rparr>"

text \<open>
  The globals when no collaborator module could be imported and no key is set: the four
  stand-ins of \<^verbatim>\<open>patch_mock_returns\<close>.
\<close>

definition env_mocks :: env where
  "env_mocks =
     \<lparr>OPENAI_API_KEY = None, openai = None, opa_enforcer = Some mock_opa_enforcer,
      entra = Some mock_entra, aws = Some mock_aws, sailpoint = Some mock_sailpoint,
      str_coerce = (\<lambda>v. None)\<rparr>"


text \<open>
  An installation without \<^verbatim>\<open>requests\<close> and \<^verbatim>\<open>boto3\<close>, with no key and no
  \<^verbatim>\<open>openai\<close>; and the same with a key and a model that answers.
\<close>

definition install0 :: install where
  "install0 = \<lparr>requests_installed = False, boto3_installed = False, network = unreachable,
               getenv_OPENAI_API_KEY = None, import_openai = None, coerce = (\<lambda>v. None)\<rparr>"


section \<open>How a call threads the state\<close>

lemma audit_log_logging: "audit_log (logging l m s) = audit_log s @ [LogRecord l m]"
  by (simp add: logging_def)

lemma backend_calls_logging: "backend_calls (logging l m s) = backend_calls s"
  by (simp add: backend_calls_def logging_def)

lemma call_if_present_state:
  "\<exists>s'. call_if_present g M f arg dflt s = (fst (module_call M f arg dflt), s') \<and>
        audit_log s' = audit_log s @ snd (module_call M f arg dflt) \<and>
        calls s' = calls s @ invoked g M f"
  by (cases M)
     (simp_all add: call_if_present_def module_call_def record_call_def split: sum.splits prod.splits)

lemma call_if_present_fst:
  "fst (call_if_present g M f arg dflt s) = fst (module_call M f arg dflt)"
  using call_if_present_state [of g M f arg dflt s] by auto

lemma call_if_present_calls:
  "calls (snd (call_if_present g M f arg dflt s)) = calls s @ invoked g M f"
  using call_if_present_state [of g M f arg dflt s] by auto

lemma backend_calls_call_if_present:
  "backend_calls (snd (call_if_present g M f arg dflt s)) =
     backend_calls s @ filter is_backend_call (invoked g M f)"
  by (simp add: backend_calls_def call_if_present_calls)

lemma invoked_opa_enforcer: "filter is_backend_call (invoked ''opa_enforcer'' M f) = []"
  by (cases M) (simp_all split: sum.splits)

lemma py_get_Inr:
  assumes "py_get v k dflt = Inr x"
  obtains d where "v = PDict d" "x = (case map_of d k of Some y \<Rightarrow> y | None \<Rightarrow> dflt)"
  using assms by (cases v) auto

section \<open>The advisory recommender always returns\<close>

lemma get_ai_access_recommendation_returns:
  "\<exists>a s'. get_ai_access_recommendation E u s = (Inr a, s') \<and>
          backend_calls s' = backend_calls s \<and>
          Call ''main'' ''get_ai_access_recommendation'' \<in> set (calls s') \<and>
          length (audit_log s) \<le> length (audit_log s')"
  by (simp add: get_ai_access_recommendation_def Let_def record_call_def logging_def backend_calls_def
      split: option.splits sum.splits)

lemma get_ai_access_recommendation_fst: "\<exists>a. fst (get_ai_access_recommendation E u s) = Inr a"
  using get_ai_access_recommendation_returns [of E u s] by auto

lemma get_ai_access_recommendation_state:
  "fst (get_ai_access_recommendation E u s) = fst (get_ai_access_recommendation E u s')"
  by (simp add: get_ai_access_recommendation_def Let_def split: option.splits sum.splits)

lemma backend_calls_get_ai_access_recommendation:
  "backend_calls (snd (get_ai_access_recommendation E u s)) = backend_calls s"
  using get_ai_access_recommendation_returns [of E u s] by auto

lemma get_access_recommendation_returns:
  "\<exists>v. fst (get_access_recommendation create (PDict d)) = Inr v"
  by (simp add: get_access_recommendation_def split: sum.splits)

section \<open>The outcomes of the handlers\<close>

text \<open>
  A Create request the policy denies: the handler returns the denial, after the recommender
  has run and before any adapter is called.
\<close>

lemma provision_user_denied:
  assumes gate: "fst (module_call (opa_enforcer E) ''enforce_policy'' (UserModel_dict user)
                        (PDict [(''allow'', PBool True)])) = Inr (PDict d)"
      and deny: "\<not> truthy (case map_of d ''allow'' of Some v \<Rightarrow> v | None \<Rightarrow> PBool False)"
  shows "\<exists>s'. provision_user E user s =
           (Inr (PDict [(''status'', PStr ''denied''),
                        (''reason'', case map_of d ''reason'' of Some v \<Rightarrow> v | None \<Rightarrow> PStr ''Policy Violation'')]), s')
         \<and> backend_calls s' = backend_calls s
         \<and> Call ''main'' ''get_ai_access_recommendation'' \<in> set (calls s')"
proof -
  let ?u = "UserModel_dict user"
  let ?s1 = "logging INFO [Lit ''Received provisioning request for: '', Val (PStr (email user))] s"
  obtain a s2 where ai: "get_ai_access_recommendation E ?u ?s1 = (Inr a, s2)"
    and bc2: "backend_calls s2 = backend_calls ?s1"
    and inv: "Call ''main'' ''get_ai_access_recommendation'' \<in> set (calls s2)"
    using get_ai_access_recommendation_returns by blast
  let ?s3 = "logging INFO [Lit ''AI access recommendation: '', Val a] s2"
  obtain s4 where cp: "call_if_present ''opa_enforcer'' (opa_enforcer E) ''enforce_policy''
        ?u (PDict [(''allow'', PBool True)]) ?s3 = (Inr (PDict d), s4)"
    and c4: "calls s4 = calls ?s3 @ invoked ''opa_enforcer'' (opa_enforcer E) ''enforce_policy''"
    using call_if_present_state [of "''opa_enforcer''" "opa_enforcer E" "''enforce_policy''"
        ?u "PDict [(''allow'', PBool True)]" ?s3] gate by auto
  from c4 bc2 have bc4: "backend_calls s4 = backend_calls s"
    by (simp add: backend_calls_def logging_def invoked_opa_enforcer)
  from c4 inv have inv4: "Call ''main'' ''get_ai_access_recommendation'' \<in> set (calls s4)"
    by (simp add: logging_def)
  show ?thesis
    using ai cp deny bc4 inv4
    by (simp add: provision_user_def Let_def logging_def backend_calls_def)
qed

text \<open>
  A Create request that returns a value returns one of two: the denial, or the aggregate
  of the three adapters' values, the recommender's value and the policy's answer.
\<close>

lemma provision_user_returns:
  assumes ret: "provision_user E user s = (Inr v, s')"
  obtains
    (denied) d where
      "fst (module_call (opa_enforcer E) ''enforce_policy'' (UserModel_dict user) (PDict [(''allow'', PBool True)])) = Inr (PDict d)"
      "\<not> truthy (case map_of d ''allow'' of Some y \<Rightarrow> y | None \<Rightarrow> PBool False)"
      "v = PDict [(''status'', PStr ''denied''),
                  (''reason'', case map_of d ''reason'' of Some y \<Rightarrow> y | None \<Rightarrow> PStr ''Policy Violation'')]"
      "length (audit_log s) + 3 \<le> length (audit_log s')"
  | (complete) d a entra_status entra_result aws_status sailpoint_result where
      "fst (module_call (opa_enforcer E) ''enforce_policy'' (UserModel_dict user) (PDict [(''allow'', PBool True)])) = Inr (PDict d)"
      "truthy (case map_of d ''allow'' of Some y \<Rightarrow> y | None \<Rightarrow> PBool False)"
      "fst (get_ai_access_recommendation E (UserModel_dict user) s) = Inr a"
      "v = PDict [(''entra_status'', entra_status), (''entra_result'', entra_result),
                  (''aws_status'', aws_status), (''ai_access'', a), (''policy_check'', PDict d),
                  (''sailpoint_result'', sailpoint_result)]"
      "length (audit_log s) + 3 \<le> length (audit_log s')"
proof -
  let ?u = "UserModel_dict user"
  let ?s1 = "logging INFO [Lit ''Received provisioning request for: '', Val (PStr (email user))] s"
  obtain a s2 where ai: "get_ai_access_recommendation E ?u ?s1 = (Inr a, s2)"
    and l2: "length (audit_log ?s1) \<le> length (audit_log s2)"
    using get_ai_access_recommendation_returns by blast
  have afst: "fst (get_ai_access_recommendation E ?u s) = Inr a"
    using ai get_ai_access_recommendation_state [of E ?u s ?s1] by simp
  let ?s3 = "logging INFO [Lit ''AI access recommendation: '', Val a] s2"
  have l3: "length (audit_log s) + 2 \<le> length (audit_log ?s3)"
    using l2 by (simp add: audit_log_logging)
  let ?pol = "module_call (opa_enforcer E) ''enforce_policy'' ?u (PDict [(''allow'', PBool True)])"
  obtain s4 where pol: "call_if_present ''opa_enforcer'' (opa_enforcer E) ''enforce_policy'' ?u
                          (PDict [(''allow'', PBool True)]) ?s3 = (fst ?pol, s4)"
    and l4: "audit_log s4 = audit_log ?s3 @ snd ?pol"
    using call_if_present_state by blast
  show thesis
  proof (cases "fst ?pol")
    case (Inl e)
    with ret ai pol show ?thesis by (simp add: provision_user_def Let_def)
  next
    case pc: (Inr policy_check)
    show ?thesis
    proof (cases "py_get policy_check ''allow'' (PBool False)")
      case (Inl e)
      with ret ai pol pc show ?thesis by (simp add: provision_user_def Let_def)
    next
      case al: (Inr allow)
      then obtain d where d: "policy_check = PDict d"
        and allow: "allow = (case map_of d ''allow'' of Some y \<Rightarrow> y | None \<Rightarrow> PBool False)"
        by (rule py_get_Inr)
      show ?thesis
      proof (cases "truthy allow")
        case False
        with ret ai pol pc al d have
          "v = PDict [(''status'', PStr ''denied''),
                  (''reason'', case map_of d ''reason'' of Some y \<Rightarrow> y | None \<Rightarrow> PStr ''Policy Violation'')]"
          and "s' = logging WARNING [Lit ''Access denied due to policy: '',
                 Val (case map_of d ''reason'' of Some y \<Rightarrow> y | None \<Rightarrow> PStr ''Policy Violation'')] s4"
          by (simp_all add: provision_user_def Let_def)
        moreover from this l3 l4 have "length (audit_log s) + 3 \<le> length (audit_log s')"
          by (simp add: audit_log_logging)
        ultimately show ?thesis using denied pc d False allow by simp
      next
        case True
        let ?ent = "module_call (entra E) ''create_entra_user'' ?u (PTuple [PStr ''error'', PStr ''module missing''])"
        obtain s5 where ent: "call_if_present ''entra'' (entra E) ''create_entra_user'' ?u
                          (PTuple [PStr ''error'', PStr ''module missing'']) s4 = (fst ?ent, s5)"
          and l5: "audit_log s5 = audit_log s4 @ snd ?ent"
          using call_if_present_state by blast
        show ?thesis
        proof (cases "fst ?ent")
          case (Inl e)
          with ret ai pol pc al True ent show ?thesis by (simp add: provision_user_def Let_def)
        next
          case ep: (Inr entra_pair)
          show ?thesis
          proof (cases "unpack2 entra_pair")
            case (Inl e)
            with ret ai pol pc al True ent ep show ?thesis by (simp add: provision_user_def Let_def)
          next
            case un: (Inr pair)
            obtain entra_status entra_result where pair: "pair = (entra_status, entra_result)"
              by (cases pair)
            let ?aws = "module_call (aws E) ''create_user'' ?u (PStr ''module missing'')"
            obtain s6 where aws: "call_if_present ''aws'' (aws E) ''create_user'' ?u
                              (PStr ''module missing'') s5 = (fst ?aws, s6)"
              and l6: "audit_log s6 = audit_log s5 @ snd ?aws"
              using call_if_present_state by blast
            show ?thesis
            proof (cases "fst ?aws")
              case (Inl e)
              with ret ai pol pc al True ent ep un pair aws show ?thesis
                by (simp add: provision_user_def Let_def)
            next
              case aw: (Inr aws_status)
              let ?sp = "module_call (sailpoint E) ''push_to_sailpoint'' ?u (PStr ''module missing'')"
              obtain s7 where sp: "call_if_present ''sailpoint'' (sailpoint E) ''push_to_sailpoint'' ?u
                                (PStr ''module missing'') s6 = (fst ?sp, s7)"
                and l7: "audit_log s7 = audit_log s6 @ snd ?sp"
                using call_if_present_state by blast
              show ?thesis
              proof (cases "fst ?sp")
                case (Inl e)
                with ret ai pol pc al True ent ep un pair aws aw sp show ?thesis
                  by (simp add: provision_user_def Let_def)
              next
                case sr: (Inr sailpoint_result)
                with ret ai pol pc al True ent ep un pair aws aw sp d have
                  "v = PDict [(''entra_status'', entra_status), (''entra_result'', entra_result),
                      (''aws_status'', aws_status), (''ai_access'', a), (''policy_check'', PDict d),
                      (''sailpoint_result'', sailpoint_result)]"
                  and "s' = logging INFO [Lit ''Provisioning complete: Entra='', Val entra_status,
                         Lit '', AWS='', Val aws_status,
                         Lit '', SailPoint='', Val sailpoint_result] s7"
                  by (simp_all add: provision_user_def Let_def)
                moreover from this l3 l4 l5 l6 l7 have "length (audit_log s) + 3 \<le> length (audit_log s')"
                  by (simp add: audit_log_logging)
                ultimately show ?thesis using complete pc d True allow afst by simp
              qed
            qed
          qed
        qed
      qed
    qed
  qed
qed

text \<open>An Update or a Delete request that returns a value: all three adapters returned.\<close>

lemma update_user_returns:
  assumes ret: "update_user E user s = (Inr v, s')"
  obtains entra_status aws_status sailpoint_status where
    "fst (module_call (entra E) ''update_entra_user'' (UserModel_dict user) (PStr ''module missing'')) = Inr entra_status"
    "fst (module_call (aws E) ''update_user'' (UserModel_dict user) (PStr ''module missing'')) = Inr aws_status"
    "fst (module_call (sailpoint E) ''update_user_attributes'' (UserModel_dict user) (PStr ''module missing'')) = Inr sailpoint_status"
    "v = PDict [(''entra_status'', entra_status), (''aws_status'', aws_status),
                (''sailpoint_status'', sailpoint_status)]"
    "audit_log s' = audit_log s @ adapter_records Update E user @
       [LogRecord INFO [Lit ''Updated user: '', Val (PStr (email user)),
                        Lit '', Entra='', Val entra_status, Lit '', AWS='', Val aws_status,
                        Lit '', SailPoint='', Val sailpoint_status]]"
    "calls s' = calls s @ invoked ''entra'' (entra E) ''update_entra_user'' @ invoked ''aws'' (aws E) ''update_user''
        @ invoked ''sailpoint'' (sailpoint E) ''update_user_attributes''"
proof -
  let ?u = "UserModel_dict user"
  let ?ent = "module_call (entra E) ''update_entra_user'' ?u (PStr ''module missing'')"
  let ?aws = "module_call (aws E) ''update_user'' ?u (PStr ''module missing'')"
  let ?sp = "module_call (sailpoint E) ''update_user_attributes'' ?u (PStr ''module missing'')"
  obtain s1 where ent: "call_if_present ''entra'' (entra E) ''update_entra_user'' ?u (PStr ''module missing'') s = (fst ?ent, s1)"
    and l1: "audit_log s1 = audit_log s @ snd ?ent"
    and c1: "calls s1 = calls s @ invoked ''entra'' (entra E) ''update_entra_user''"
    using call_if_present_state by blast
  obtain s2 where aws: "call_if_present ''aws'' (aws E) ''update_user'' ?u (PStr ''module missing'') s1 = (fst ?aws, s2)"
    and l2: "audit_log s2 = audit_log s1 @ snd ?aws"
    and c2: "calls s2 = calls s1 @ invoked ''aws'' (aws E) ''update_user''"
    using call_if_present_state by blast
  obtain s3 where sp: "call_if_present ''sailpoint'' (sailpoint E) ''update_user_attributes'' ?u (PStr ''module missing'') s2 = (fst ?sp, s3)"
    and l3: "audit_log s3 = audit_log s2 @ snd ?sp"
    and c3: "calls s3 = calls s2 @ invoked ''sailpoint'' (sailpoint E) ''update_user_attributes''"
    using call_if_present_state by blast
  show thesis
  proof (cases "fst ?ent")
    case (Inl e)
    with ret ent show ?thesis by (simp add: update_user_def)
  next
    case e: (Inr entra_status)
    show ?thesis
    proof (cases "fst ?aws")
      case (Inl e')
      with ret ent e aws show ?thesis by (simp add: update_user_def)
    next
      case a: (Inr aws_status)
      show ?thesis
      proof (cases "fst ?sp")
        case (Inl e')
        with ret ent e aws a sp show ?thesis by (simp add: update_user_def)
      next
        case p: (Inr sailpoint_status)
        with ret ent e aws a sp have
          "v = PDict [(''entra_status'', entra_status), (''aws_status'', aws_status),
                      (''sailpoint_status'', sailpoint_status)]"
          and s': "s' = logging INFO [Lit ''Updated user: '', Val (PStr (email user)),
                        Lit '', Entra='', Val entra_status, Lit '', AWS='', Val aws_status,
                        Lit '', SailPoint='', Val sailpoint_status] s3"
          by (simp_all add: update_user_def)
        moreover from s' l1 l2 l3 have "audit_log s' = audit_log s @ adapter_records Update E user @
           [LogRecord INFO [Lit ''Updated user: '', Val (PStr (email user)),
                        Lit '', Entra='', Val entra_status, Lit '', AWS='', Val aws_status,
                        Lit '', SailPoint='', Val sailpoint_status]]"
          by (simp add: audit_log_logging)
        moreover from s' c1 c2 c3 have "calls s' = calls s @ invoked ''entra'' (entra E) ''update_entra_user''
            @ invoked ''aws'' (aws E) ''update_user'' @ invoked ''sailpoint'' (sailpoint E) ''update_user_attributes''"
          by (simp add: logging_def)
        ultimately show ?thesis using that e a p by blast
      qed
    qed
  qed
qed

lemma deprovision_user_returns:
  assumes ret: "deprovision_user E user s = (Inr v, s')"
  obtains entra_status aws_status sailpoint_status where
    "fst (module_call (entra E) ''delete_entra_user'' (UserModel_dict user) (PStr ''module missing'')) = Inr entra_status"
    "fst (module_call (aws E) ''delete_user'' (UserModel_dict user) (PStr ''module missing'')) = Inr aws_status"
    "fst (module_call (sailpoint E) ''delete_user'' (UserModel_dict user) (PStr ''module missing'')) = Inr sailpoint_status"
    "v = PDict [(''entra_status'', entra_status), (''aws_status'', aws_status),
                (''sailpoint_status'', sailpoint_status)]"
    "audit_log s' = audit_log s @ adapter_records Delete E user @
       [LogRecord INFO [Lit ''Deprovisioned user: '', Val (PStr (email user)),
                        Lit '', Entra='', Val entra_status, Lit '', AWS='', Val aws_status,
                        Lit '', SailPoint='', Val sailpoint_status]]"
    "calls s' = calls s @ invoked ''entra'' (entra E) ''delete_entra_user'' @ invoked ''aws'' (aws E) ''delete_user''
        @ invoked ''sailpoint'' (sailpoint E) ''delete_user''"
proof -
  let ?u = "UserModel_dict user"
  let ?ent = "module_call (entra E) ''delete_entra_user'' ?u (PStr ''module missing'')"
  let ?aws = "module_call (aws E) ''delete_user'' ?u (PStr ''module missing'')"
  let ?sp = "module_call (sailpoint E) ''delete_user'' ?u (PStr ''module missing'')"
  obtain s1 where ent: "call_if_present ''entra'' (entra E) ''delete_entra_user'' ?u (PStr ''module missing'') s = (fst ?ent, s1)"
    and l1: "audit_log s1 = audit_log s @ snd ?ent"
    and c1: "calls s1 = calls s @ invoked ''entra'' (entra E) ''delete_entra_user''"
    using call_if_present_state by blast
  obtain s2 where aws: "call_if_present ''aws'' (aws E) ''delete_user'' ?u (PStr ''module missing'') s1 = (fst ?aws, s2)"
    and l2: "audit_log s2 = audit_log s1 @ snd ?aws"
    and c2: "calls s2 = calls s1 @ invoked ''aws'' (aws E) ''delete_user''"
    using call_if_present_state by blast
  obtain s3 where sp: "call_if_present ''sailpoint'' (sailpoint E) ''delete_user'' ?u (PStr ''module missing'') s2 = (fst ?sp, s3)"
    and l3: "audit_log s3 = audit_log s2 @ snd ?sp"
    and c3: "calls s3 = calls s2 @ invoked ''sailpoint'' (sailpoint E) ''delete_user''"
    using call_if_present_state by blast
  show thesis
  proof (cases "fst ?ent")
    case (Inl e)
    with ret ent show ?thesis by (simp add: deprovision_user_def)
  next
    case e: (Inr entra_status)
    show ?thesis
    proof (cases "fst ?aws")
      case (Inl e')
      with ret ent e aws show ?thesis by (simp add: deprovision_user_def)
    next
      case a: (Inr aws_status)
      show ?thesis
      proof (cases "fst ?sp")
        case (Inl e')
        with ret ent e aws a sp show ?thesis by (simp add: deprovision_user_def)
      next
        case p: (Inr sailpoint_status)
        with ret ent e aws a sp have
          "v = PDict [(''entra_status'', entra_status), (''aws_status'', aws_status),
                      (''sailpoint_status'', sailpoint_status)]"
          and s': "s' = logging INFO [Lit ''Deprovisioned user: '', Val (PStr (email user)),
                        Lit '', Entra='', Val entra_status, Lit '', AWS='', Val aws_status,
                        Lit '', SailPoint='', Val sailpoint_status] s3"
          by (simp_all add: deprovision_user_def)
        moreover from s' l1 l2 l3 have "audit_log s' = audit_log s @ adapter_records Delete E user @
           [LogRecord INFO [Lit ''Deprovisioned user: '', Val (PStr (email user)),
                        Lit '', Entra='', Val entra_status, Lit '', AWS='', Val aws_status,
                        Lit '', SailPoint='', Val sailpoint_status]]"
          by (simp add: audit_log_logging)
        moreover from s' c1 c2 c3 have "calls s' = calls s @ invoked ''entra'' (entra E) ''delete_entra_user''
            @ invoked ''aws'' (aws E) ''delete_user'' @ invoked ''sailpoint'' (sailpoint E) ''delete_user''"
          by (simp add: logging_def)
        ultimately show ?thesis using that e a p by blast
      qed
    qed
  qed
qed

section \<open>Validation\<close>

text \<open>The dictionary of a validated profile has no key \<^verbatim>\<open>name\<close>.\<close>

lemma UserModel_dict_name: "getitem_str (UserModel_dict user) ''name'' = Inl (KeyError ''name'')"
  by (simp add: UserModel_dict_def)

lemma parse_UserModel_missing_email:
  "map_of d ''email'' = None \<or> map_of d ''email'' = Some PNone \<Longrightarrow> parse_UserModel co (PDict d) = None"
  by (auto simp add: required_str_def)

lemma parse_UserModel_any_string:
  "parse_UserModel co (PDict [(''email'', PStr e)]) =
     Some \<lparr>email = e, firstName = None, lastName = None, jobTitle = None, department = None,
           location = None, employeeId = None, managerId = None, costcenter = None, region = None\<rparr>"
  by (simp add: required_str_def optional_str_def)

lemma endpoint_rejects:
  "parse_UserModel (str_coerce E) body = None \<Longrightarrow> endpoint op E body s = (Inl RequestValidationError, s)"
  by (simp add: endpoint_def)

lemma endpoint_returns:
  assumes "endpoint op E body s = (Inr v, s')"
  obtains user v0 where "parse_UserModel (str_coerce E) body = Some user"
    "handler op E user s = (Inr v0, s')" "v = jsonable_encoder v0"
  using assms by (auto simp add: endpoint_def split: option.splits sum.splits prod.splits)

section \<open>The states in which requests are served\<close>

text \<open>
  The import of \<^verbatim>\<open>main.py\<close> succeeds only when none of the three adapter modules could
  be imported: each of them lacks an attribute that \<^verbatim>\<open>patch_mock_returns\<close> reads. The
  policy client imports what the Entra adapter imports, so it is a stand-in then as well: in
  every state in which a request is served, the four collaborators are the stand-ins.
\<close>

lemma startup_served:
  assumes "startup I = Inr E"
  shows "\<not> requests_installed I \<and> \<not> boto3_installed I \<and>
         E = \<lparr>OPENAI_API_KEY = getenv_OPENAI_API_KEY I, openai = import_openai I,
              opa_enforcer = Some mock_opa_enforcer, entra = Some mock_entra, aws = Some mock_aws,
              sailpoint = Some mock_sailpoint, str_coerce = coerce I\<rparr>"
  using assms
  by (cases "requests_installed I"; cases "boto3_installed I")
     (auto simp add: startup_def safe_import_def entra_module_def aws_module_def opa_enforcer_module_def
       mock_opa_enforcer_def mock_entra_def mock_aws_def mock_sailpoint_def)

lemma startup_install0: "startup install0 = Inr env_mocks"
  by (simp add: startup_def install0_def safe_import_def env_mocks_def
      mock_opa_enforcer_def mock_entra_def mock_aws_def mock_sailpoint_def)

lemma startup_mocks:
  assumes "startup I = Inr E"
  shows "opa_enforcer E = Some mock_opa_enforcer" "entra E = Some mock_entra"
        "aws E = Some mock_aws" "sailpoint E = Some mock_sailpoint"
  using startup_served [OF assms] by auto

text \<open>What the recommender leaves in the state: its calls, and a record when its body raised.\<close>

lemma get_ai_access_recommendation_effect:
  "\<exists>a s2. get_ai_access_recommendation E u s = (Inr a, s2) \<and>
      (audit_log s2 = audit_log s \<or>
       (\<exists>m. audit_log s2 = audit_log s @ [LogRecord ERROR [Lit ''AI error: '', Val (PStr m)]])) \<and>
      (calls s2 = calls s @ [Call ''main'' ''get_ai_access_recommendation''] \<or>
       calls s2 = calls s @ [Call ''main'' ''get_ai_access_recommendation'',
                             Call ''openai'' ''ChatCompletion.create''])"
  by (simp add: get_ai_access_recommendation_def Let_def record_call_def logging_def
      split: option.splits sum.splits)

text \<open>The three handlers on the stand-ins.\<close>

lemma update_user_served:
  assumes "entra E = Some mock_entra" "aws E = Some mock_aws" "sailpoint E = Some mock_sailpoint"
  shows "\<exists>s'. update_user E user s =
           (Inr (PDict [(''entra_status'', PStr ''success''), (''aws_status'', PStr ''success''),
                        (''sailpoint_status'', PStr ''success'')]), s') \<and>
         calls s' = calls s @ backend_operations Update \<and>
         audit_log s' = audit_log s @
           [LogRecord INFO [Lit ''Updated user: '', Val (PStr (email user)),
                            Lit '', Entra='', Val (PStr ''success''), Lit '', AWS='', Val (PStr ''success''),
                            Lit '', SailPoint='', Val (PStr ''success'')]]"
  using assms
  by (simp add: update_user_def call_if_present_def mock_entra_def mock_aws_def mock_sailpoint_def
      returns_def logging_def record_call_def)

lemma deprovision_user_served:
  assumes "entra E = Some mock_entra" "aws E = Some mock_aws" "sailpoint E = Some mock_sailpoint"
  shows "\<exists>s'. deprovision_user E user s =
           (Inr (PDict [(''entra_status'', PStr ''success''), (''aws_status'', PStr ''success''),
                        (''sailpoint_status'', PStr ''success'')]), s') \<and>
         calls s' = calls s @ backend_operations Delete \<and>
         audit_log s' = audit_log s @
           [LogRecord INFO [Lit ''Deprovisioned user: '', Val (PStr (email user)),
                            Lit '', Entra='', Val (PStr ''success''), Lit '', AWS='', Val (PStr ''success''),
                            Lit '', SailPoint='', Val (PStr ''success'')]]"
  using assms
  by (simp add: deprovision_user_def call_if_present_def mock_entra_def mock_aws_def mock_sailpoint_def
      returns_def logging_def record_call_def)

lemma provision_user_served:
  assumes m: "opa_enforcer E = Some mock_opa_enforcer" "entra E = Some mock_entra"
             "aws E = Some mock_aws" "sailpoint E = Some mock_sailpoint"
      and ai: "get_ai_access_recommendation E (UserModel_dict user)
                 (logging INFO [Lit ''Received provisioning request for: '', Val (PStr (email user))] s) = (Inr a, s2)"
  shows "\<exists>s'. provision_user E user s =
           (Inr (PDict [(''entra_status'', PStr ''success''), (''entra_result'', PStr ''User created''),
                        (''aws_status'', PStr ''success''), (''ai_access'', a),
                        (''policy_check'', PDict [(''allow'', PBool True)]),
                        (''sailpoint_result'', PStr ''User pushed'')]), s') \<and>
         calls s' = calls s2 @ Call ''opa_enforcer'' ''enforce_policy'' # backend_operations Create \<and>
         audit_log s' = audit_log s2 @
           [LogRecord INFO [Lit ''AI access recommendation: '', Val a],
            LogRecord INFO [Lit ''Provisioning complete: Entra='', Val (PStr ''success''),
                            Lit '', AWS='', Val (PStr ''success''),
                            Lit '', SailPoint='', Val (PStr ''User pushed'')]]"
  using m ai
  by (simp add: provision_user_def Let_def call_if_present_def mock_opa_enforcer_def mock_entra_def
      mock_aws_def mock_sailpoint_def returns_def logging_def record_call_def)


text \<open>
  The handler of a Create request does with the policy's answer what \<open>policy_denies\<close>
  says, whatever is bound to the globals.
\<close>

lemma policy_denies_gate:
  assumes pol: "fst (module_call (opa_enforcer E) ''enforce_policy'' (UserModel_dict user)
                        (PDict [(''allow'', PBool True)])) = Inr policy_check"
  shows "(\<forall>e. policy_denies policy_check = Inl e \<longrightarrow> fst (provision_user E user s) = Inl e) \<and>
         (policy_denies policy_check = Inr True \<longrightarrow>
            (\<exists>reason s'. provision_user E user s
                 = (Inr (PDict [(''status'', PStr ''denied''), (''reason'', reason)]), s') \<and>
               backend_calls s' = backend_calls s)) \<and>
         (policy_denies policy_check = Inr False \<longrightarrow>
            (\<forall>reason. fst (provision_user E user s)
                 \<noteq> Inr (PDict [(''status'', PStr ''denied''), (''reason'', reason)])))"
proof (intro conjI allI impI)
  fix e assume d: "policy_denies policy_check = Inl e"
  let ?u = "UserModel_dict user"
  let ?s1 = "logging INFO [Lit ''Received provisioning request for: '', Val (PStr (email user))] s"
  obtain a s2 where ai: "get_ai_access_recommendation E ?u ?s1 = (Inr a, s2)"
    using get_ai_access_recommendation_returns by blast
  let ?s3 = "logging INFO [Lit ''AI access recommendation: '', Val a] s2"
  obtain s4 where cp: "call_if_present ''opa_enforcer'' (opa_enforcer E) ''enforce_policy''
        ?u (PDict [(''allow'', PBool True)]) ?s3 = (Inr policy_check, s4)"
    using call_if_present_state [of "''opa_enforcer''" "opa_enforcer E" "''enforce_policy''"
        ?u "PDict [(''allow'', PBool True)]" ?s3] pol by auto
  from d have "py_get policy_check ''allow'' (PBool False) = Inl e"
    by (simp add: policy_denies_def split: sum.splits)
  with ai cp show "fst (provision_user E user s) = Inl e"
    by (simp add: provision_user_def Let_def)
next
  assume d: "policy_denies policy_check = Inr True"
  then obtain allow where g: "py_get policy_check ''allow'' (PBool False) = Inr allow" and f: "\<not> truthy allow"
    by (auto simp add: policy_denies_def split: sum.splits)
  from g obtain dd where dd: "policy_check = PDict dd"
    and al: "allow = (case map_of dd ''allow'' of Some y \<Rightarrow> y | None \<Rightarrow> PBool False)"
    by (rule py_get_Inr)
  from provision_user_denied [of E user dd s] pol dd al f
  show "\<exists>reason s'. provision_user E user s
                 = (Inr (PDict [(''status'', PStr ''denied''), (''reason'', reason)]), s') \<and>
               backend_calls s' = backend_calls s"
    by auto
next
  fix reason
  assume d: "policy_denies policy_check = Inr False"
  show "fst (provision_user E user s) \<noteq> Inr (PDict [(''status'', PStr ''denied''), (''reason'', reason)])"
  proof
    assume "fst (provision_user E user s) = Inr (PDict [(''status'', PStr ''denied''), (''reason'', reason)])"
    then obtain s' where ret: "provision_user E user s
        = (Inr (PDict [(''status'', PStr ''denied''), (''reason'', reason)]), s')"
      by (cases "provision_user E user s") auto
    from ret show False
    proof (cases rule: provision_user_returns)
      case (denied d')
      with pol d show ?thesis by (auto simp add: policy_denies_def)
    next
      case (complete d' a es er aw sp)
      then show ?thesis by simp
    qed
  qed
qed

section \<open>The SailPoint adapter always returns\<close>

text \<open>
  The SailPoint adapter keeps its failures to itself: whatever the profile and the network,
  \<^verbatim>\<open>push_to_sailpoint\<close> returns, with \<^verbatim>\<open>(500, {"error": ...})\<close> when its body raised.
\<close>

lemma push_to_sailpoint_returns: "\<exists>v. fst (push_to_sailpoint W user) = Inr v"
  by (simp add: push_to_sailpoint_def split: sum.splits)

text \<open>
  On a schema-valid profile it never succeeds either: \<^verbatim>\<open>user["name"]\<close> raises before any
  request is sent, and the adapter returns the error value and logs it.
\<close>

lemma push_to_sailpoint_on_valid_profile:
  "push_to_sailpoint W (UserModel_dict user) =
     (Inr (PTuple [PInt 500, PDict [(''error'', PStr (py_quote ''name''))]]),
      [LogRecord ERROR [Lit ''SailPoint API error: '', Val (PStr (py_quote ''name''))]])"
  by (simp add: push_to_sailpoint_def push_to_sailpoint_body_def UserModel_dict_name KeyError_def)

section \<open>C1: an adapter that raises\<close>

text \<open>
  \<^verbatim>\<open>provision_user\<close> has no \<^verbatim>\<open>try\<close> of its own: when the policy allows and the Entra call raises,
  whatever module is bound to \<^verbatim>\<open>entra\<close>, the exception is the handler's result and no
  other backend has been called.
\<close>

lemma provision_user_entra_raises:
  assumes gate: "fst (module_call (opa_enforcer E) ''enforce_policy'' (UserModel_dict user)
                        (PDict [(''allow'', PBool True)])) = Inr (PDict d)"
      and allow: "truthy (case map_of d ''allow'' of Some v \<Rightarrow> v | None \<Rightarrow> PBool False)"
      and ent: "fst (module_call (entra E) ''create_entra_user'' (UserModel_dict user)
                        (PTuple [PStr ''error'', PStr ''module missing''])) = Inl e"
  shows "\<exists>s'. provision_user E user s = (Inl e, s') \<and>
              backend_calls s' = backend_calls s @ invoked ''entra'' (entra E) ''create_entra_user''"
proof -
  let ?u = "UserModel_dict user"
  let ?s1 = "logging INFO [Lit ''Received provisioning request for: '', Val (PStr (email user))] s"
  obtain a s2 where ai: "get_ai_access_recommendation E ?u ?s1 = (Inr a, s2)"
    and bc2: "backend_calls s2 = backend_calls ?s1"
    using get_ai_access_recommendation_returns by blast
  let ?s3 = "logging INFO [Lit ''AI access recommendation: '', Val a] s2"
  obtain s4 where cp: "call_if_present ''opa_enforcer'' (opa_enforcer E) ''enforce_policy''
        ?u (PDict [(''allow'', PBool True)]) ?s3 = (Inr (PDict d), s4)"
    and c4: "calls s4 = calls ?s3 @ invoked ''opa_enforcer'' (opa_enforcer E) ''enforce_policy''"
    using call_if_present_state [of "''opa_enforcer''" "opa_enforcer E" "''enforce_policy''"
        ?u "PDict [(''allow'', PBool True)]" ?s3] gate by auto
  from c4 bc2 have bc4: "backend_calls s4 = backend_calls s"
    by (simp add: backend_calls_def logging_def invoked_opa_enforcer)
  obtain s5 where ce: "call_if_present ''entra'' (entra E) ''create_entra_user''
        ?u (PTuple [PStr ''error'', PStr ''module missing'']) s4 = (Inl e, s5)"
    and c5: "calls s5 = calls s4 @ invoked ''entra'' (entra E) ''create_entra_user''"
    using call_if_present_state [of "''entra''" "entra E" "''create_entra_user''"
        ?u "PTuple [PStr ''error'', PStr ''module missing'']" s4] ent by auto
  have inv: "filter is_backend_call (invoked ''entra'' (entra E) ''create_entra_user'')
               = invoked ''entra'' (entra E) ''create_entra_user''"
    by (cases "entra E") (simp_all split: sum.splits)
  from c5 bc4 inv have bc5: "backend_calls s5 = backend_calls s @ invoked ''entra'' (entra E) ''create_entra_user''"
    by (simp add: backend_calls_def)
  show ?thesis
    using ai cp allow ce bc5
    by (simp add: provision_user_def Let_def)
qed


section \<open>C2: when the policy cannot be evaluated\<close>




section \<open>C4: the records a request appends\<close>

text \<open>
  C4 says every accepted request appends exactly one record. A Create request that
  succeeds on the stand-ins appends three lines to the audit file: the request received, the
  recommender's value, the completion.
\<close>

theorem create_appends_three_records:
  "endpoint Create env_mocks alice_body state0 =
     (Inr (PDict [(''entra_status'', PStr ''success''), (''entra_result'', PStr ''User created''),
                  (''aws_status'', PStr ''success''),
                  (''ai_access'', PDict [(''error'', PStr ''Missing OpenAI API key'')]),
                  (''policy_check'', PDict [(''allow'', PBool True)]),
                  (''sailpoint_result'', PStr ''User pushed'')]),
      \<lparr>audit_log =
         [LogRecord INFO [Lit ''Received provisioning request for: '', Val (PStr ''alice@example.com'')],
          LogRecord INFO [Lit ''AI access recommendation: '',
                          Val (PDict [(''error'', PStr ''Missing OpenAI API key'')])],
          LogRecord INFO [Lit ''Provisioning complete: Entra='', Val (PStr ''success''),
                          Lit '', AWS='', Val (PStr ''success''),
                          Lit '', SailPoint='', Val (PStr ''User pushed'')]],
       calls = [Call ''main'' ''get_ai_access_recommendation'', Call ''opa_enforcer'' ''enforce_policy'',
                Call ''entra'' ''create_entra_user'', Call ''aws'' ''create_user'',
                Call ''sailpoint'' ''push_to_sailpoint'']\<rparr>)"
  by (simp add: endpoint_def alice_body_def env_mocks_def state0_def required_str_def optional_str_def
      provision_user_def get_ai_access_recommendation_def call_if_present_def mock_opa_enforcer_def
      mock_entra_def mock_aws_def mock_sailpoint_def returns_def
      logging_def record_call_def UserModel_dict_def)

text \<open>
  C4, amended. In every state the import of \<^verbatim>\<open>main.py\<close> leaves: a request whose body has
  no \<^verbatim>\<open>email\<close> is rejected with the audit log (and the whole state) unchanged; an Update
  request whose body validates appends exactly one record, \<^verbatim>\<open>Updated user\<close>; a Delete
  request exactly one, \<^verbatim>\<open>Deprovisioned user\<close>; a Create request appends
  \<^verbatim>\<open>Received provisioning request\<close>, then \<^verbatim>\<open>AI access recommendation\<close> and
  \<^verbatim>\<open>Provisioning complete\<close>, and between the first and the second at most one more,
  the record \<^verbatim>\<open>AI error\<close> of level ERROR that the recommender writes when the call of
  the model raises or its answer cannot be read: three records or four, never one.
\<close>

theorem audit_records_per_request:
  assumes st: "startup I = Inr E"
  shows "(map_of d ''email'' = None \<longrightarrow> endpoint op E (PDict d) s = (Inl RequestValidationError, s)) \<and>
   (\<forall>user. parse_UserModel (str_coerce E) body = Some user \<longrightarrow>
      (\<exists>v s'. endpoint Update E body s = (Inr v, s') \<and>
         audit_log s' = audit_log s @
           [LogRecord INFO [Lit ''Updated user: '', Val (PStr (email user)),
                            Lit '', Entra='', Val (PStr ''success''), Lit '', AWS='', Val (PStr ''success''),
                            Lit '', SailPoint='', Val (PStr ''success'')]]) \<and>
      (\<exists>v s'. endpoint Delete E body s = (Inr v, s') \<and>
         audit_log s' = audit_log s @
           [LogRecord INFO [Lit ''Deprovisioned user: '', Val (PStr (email user)),
                            Lit '', Entra='', Val (PStr ''success''), Lit '', AWS='', Val (PStr ''success''),
                            Lit '', SailPoint='', Val (PStr ''success'')]]) \<and>
      (\<exists>v s' a L. endpoint Create E body s = (Inr v, s') \<and>
         audit_log s' = audit_log s @
           [LogRecord INFO [Lit ''Received provisioning request for: '', Val (PStr (email user))]] @ L @
           [LogRecord INFO [Lit ''AI access recommendation: '', Val a],
            LogRecord INFO [Lit ''Provisioning complete: Entra='', Val (PStr ''success''),
                            Lit '', AWS='', Val (PStr ''success''),
                            Lit '', SailPoint='', Val (PStr ''User pushed'')]] \<and>
         (L = [] \<or> (\<exists>m. L = [LogRecord ERROR [Lit ''AI error: '', Val (PStr m)]]))))"
proof (intro conjI allI impI)
  assume "map_of d ''email'' = None"
  then show "endpoint op E (PDict d) s = (Inl RequestValidationError, s)"
    by (intro endpoint_rejects parse_UserModel_missing_email) simp
next
  fix user assume p: "parse_UserModel (str_coerce E) body = Some user"
  from update_user_served [OF startup_mocks(2-4) [OF st], of user s] p
  show "\<exists>v s'. endpoint Update E body s = (Inr v, s') \<and>
         audit_log s' = audit_log s @
           [LogRecord INFO [Lit ''Updated user: '', Val (PStr (email user)),
                            Lit '', Entra='', Val (PStr ''success''), Lit '', AWS='', Val (PStr ''success''),
                            Lit '', SailPoint='', Val (PStr ''success'')]]"
    by (auto simp add: endpoint_def)
next
  fix user assume p: "parse_UserModel (str_coerce E) body = Some user"
  from deprovision_user_served [OF startup_mocks(2-4) [OF st], of user s] p
  show "\<exists>v s'. endpoint Delete E body s = (Inr v, s') \<and>
         audit_log s' = audit_log s @
           [LogRecord INFO [Lit ''Deprovisioned user: '', Val (PStr (email user)),
                            Lit '', Entra='', Val (PStr ''success''), Lit '', AWS='', Val (PStr ''success''),
                            Lit '', SailPoint='', Val (PStr ''success'')]]"
    by (auto simp add: endpoint_def)
next
  fix user assume p: "parse_UserModel (str_coerce E) body = Some user"
  let ?r = "LogRecord INFO [Lit ''Received provisioning request for: '', Val (PStr (email user))]"
  let ?s1 = "logging INFO [Lit ''Received provisioning request for: '', Val (PStr (email user))] s"
  obtain a s2 where ai: "get_ai_access_recommendation E (UserModel_dict user) ?s1 = (Inr a, s2)"
    and l2: "audit_log s2 = audit_log ?s1 \<or>
       (\<exists>m. audit_log s2 = audit_log ?s1 @ [LogRecord ERROR [Lit ''AI error: '', Val (PStr m)]])"
    using get_ai_access_recommendation_effect [of E "UserModel_dict user" ?s1] by blast
  obtain L where L: "audit_log s2 = audit_log s @ [?r] @ L"
    and Lc: "L = [] \<or> (\<exists>m. L = [LogRecord ERROR [Lit ''AI error: '', Val (PStr m)]])"
    using l2 by (auto simp add: audit_log_logging)
  obtain s' where ret: "provision_user E user s =
           (Inr (PDict [(''entra_status'', PStr ''success''), (''entra_result'', PStr ''User created''),
                        (''aws_status'', PStr ''success''), (''ai_access'', a),
                        (''policy_check'', PDict [(''allow'', PBool True)]),
                        (''sailpoint_result'', PStr ''User pushed'')]), s')"
    and l': "audit_log s' = audit_log s2 @
           [LogRecord INFO [Lit ''AI access recommendation: '', Val a],
            LogRecord INFO [Lit ''Provisioning complete: Entra='', Val (PStr ''success''),
                            Lit '', AWS='', Val (PStr ''success''),
                            Lit '', SailPoint='', Val (PStr ''User pushed'')]]"
    using provision_user_served [OF startup_mocks [OF st] ai] by blast
  from ret p have "\<exists>v. endpoint Create E body s = (Inr v, s')"
    by (simp add: endpoint_def)
  with l' L Lc
  show "\<exists>v s' a L. endpoint Create E body s = (Inr v, s') \<and>
         audit_log s' = audit_log s @ [?r] @ L @
           [LogRecord INFO [Lit ''AI access recommendation: '', Val a],
            LogRecord INFO [Lit ''Provisioning complete: Entra='', Val (PStr ''success''),
                            Lit '', AWS='', Val (PStr ''success''),
                            Lit '', SailPoint='', Val (PStr ''User pushed'')]] \<and>
         (L = [] \<or> (\<exists>m. L = [LogRecord ERROR [Lit ''AI error: '', Val (PStr m)]]))"
    by auto
qed

text \<open>The theorem at a body without \<^verbatim>\<open>email\<close> and at an Update request for Alice.\<close>

theorem audit_records_per_request_witness:
  "startup install0 = Inr env_mocks \<and>
   map_of [(''firstName'', PStr ''Alice'')] ''email'' = None \<and>
   endpoint Update env_mocks (PDict [(''firstName'', PStr ''Alice'')]) state0 = (Inl RequestValidationError, state0) \<and>
   parse_UserModel (str_coerce env_mocks) alice_body = Some alice \<and>
   (\<exists>v s'. endpoint Update env_mocks alice_body state0 = (Inr v, s') \<and>
      audit_log s' = audit_log state0 @
        [LogRecord INFO [Lit ''Updated user: '', Val (PStr ''alice@example.com''),
                         Lit '', Entra='', Val (PStr ''success''), Lit '', AWS='', Val (PStr ''success''),
                         Lit '', SailPoint='', Val (PStr ''success'')]])"
proof -
  have m: "map_of [(''firstName'', PStr ''Alice'')] ''email'' = None" by simp
  have p: "parse_UserModel (str_coerce env_mocks) alice_body = Some alice"
    by (simp add: alice_body_def alice_def env_mocks_def required_str_def optional_str_def)
  have e: "email alice = ''alice@example.com''" by (simp add: alice_def)
  from audit_records_per_request
         [OF startup_install0, of "[(''firstName'', PStr ''Alice'')]" Update state0 alice_body]
       m p e startup_install0
  show ?thesis by simp
qed

section \<open>C5: a failure of the advisory recommender\<close>



section \<open>C6: a request without an email, and a malformed one\<close>

text \<open>
  The claim says a malformed email is rejected. The schema types \<^verbatim>\<open>email\<close> as
  \<^verbatim>\<open>str\<close> and checks nothing else: the body \<^verbatim>\<open>{"email": "not-an-email"}\<close> is accepted,
  the policy, the recommender and the three adapters are called and three records are written.
\<close>

theorem malformed_email_accepted:
  "fst (endpoint Create env_mocks (PDict [(''email'', PStr ''not-an-email'')]) state0) =
     Inr (PDict [(''entra_status'', PStr ''success''), (''entra_result'', PStr ''User created''),
                  (''aws_status'', PStr ''success''),
                  (''ai_access'', PDict [(''error'', PStr ''Missing OpenAI API key'')]),
                  (''policy_check'', PDict [(''allow'', PBool True)]),
                  (''sailpoint_result'', PStr ''User pushed'')]) \<and>
   calls (snd (endpoint Create env_mocks (PDict [(''email'', PStr ''not-an-email'')]) state0)) =
      [Call ''main'' ''get_ai_access_recommendation'', Call ''opa_enforcer'' ''enforce_policy'',
       Call ''entra'' ''create_entra_user'', Call ''aws'' ''create_user'',
       Call ''sailpoint'' ''push_to_sailpoint''] \<and>
   length (audit_log (snd (endpoint Create env_mocks (PDict [(''email'', PStr ''not-an-email'')]) state0))) = 3"
  by (simp add: endpoint_def env_mocks_def state0_def required_str_def optional_str_def
      provision_user_def get_ai_access_recommendation_def call_if_present_def mock_opa_enforcer_def
      mock_entra_def mock_aws_def mock_sailpoint_def returns_def
      logging_def record_call_def UserModel_dict_def)

text \<open>
  C6, amended. For every request, of any of the three operations, whose profile has no
  \<^verbatim>\<open>email\<close> field (or \<^verbatim>\<open>null\<close> for it), the request is rejected as invalid and the
  state is what it was: no policy, recommender or adapter call has been made and no audit record
  written. The content of an email is not checked: every string, the empty one included, passes
  the schema.
\<close>

theorem missing_email_rejected_before_any_call:
  "(map_of d ''email'' = None \<or> map_of d ''email'' = Some PNone \<longrightarrow>
      endpoint op E (PDict d) s = (Inl RequestValidationError, s)) \<and>
   (\<forall>e. \<exists>user. parse_UserModel (str_coerce E) (PDict [(''email'', PStr e)]) = Some user \<and> email user = e)"
proof (intro conjI allI impI)
  assume "map_of d ''email'' = None \<or> map_of d ''email'' = Some PNone"
  then show "endpoint op E (PDict d) s = (Inl RequestValidationError, s)"
    by (intro endpoint_rejects parse_UserModel_missing_email)
next
  fix e
  show "\<exists>user. parse_UserModel (str_coerce E) (PDict [(''email'', PStr e)]) = Some user \<and> email user = e"
    by (rule exI, rule conjI, rule parse_UserModel_any_string) simp
qed

theorem missing_email_rejected_before_any_call_witness:
  "map_of [(''firstName'', PStr ''Alice'')] ''email'' = None \<and>
   endpoint Create env_mocks (PDict [(''firstName'', PStr ''Alice'')]) state0
     = (Inl RequestValidationError, state0) \<and>
   calls state0 = [] \<and> audit_log state0 = []"
proof -
  have m: "map_of [(''firstName'', PStr ''Alice'')] ''email'' = None" by simp
  from missing_email_rejected_before_any_call
         [of "[(''firstName'', PStr ''Alice'')]" Create env_mocks state0] m
  have "endpoint Create env_mocks (PDict [(''firstName'', PStr ''Alice'')]) state0
          = (Inl RequestValidationError, state0)"
    by blast
  with m show ?thesis by (simp add: state0_def)
qed

section \<open>C7: Update and Delete\<close>



section \<open>C8: the order of the outcomes\<close>

text \<open>
  C8. Whatever the globals, the backends' answers and the state, a handler that returns a value
  returns a dictionary whose keys are those of its \<^verbatim>\<open>return\<close> statement, in that order;
  the one other value is the denial of a Create request, which holds no backend outcome. Two
  requests of the same operation therefore report their backend outcomes in the same order.
  (The handlers call the adapters one after the other: there is no order of completion.)
\<close>

theorem backend_outcome_order_fixed:
  assumes "handler op E user s = (Inr v, s')"
  shows "dict_keys v = outcome_keys op \<or> (op = Create \<and> dict_keys v = [''status'', ''reason''])"
proof (cases op)
  case Create
  with assms have "provision_user E user s = (Inr v, s')" by simp
  then show ?thesis using Create by (cases rule: provision_user_returns) simp_all
next
  case Update
  with assms have "update_user E user s = (Inr v, s')" by simp
  then show ?thesis using Update by (cases rule: update_user_returns) simp
next
  case Delete
  with assms have "deprovision_user E user s = (Inr v, s')" by simp
  then show ?thesis using Delete by (cases rule: deprovision_user_returns) simp
qed

theorem backend_outcome_order_fixed_witness:
  "handler Delete env_mocks alice state0 =
     (Inr (PDict [(''entra_status'', PStr ''success''), (''aws_status'', PStr ''success''),
                  (''sailpoint_status'', PStr ''success'')]),
      \<lparr>audit_log = [LogRecord INFO [Lit ''Deprovisioned user: '', Val (PStr ''alice@example.com''),
                        Lit '', Entra='', Val (PStr ''success''), Lit '', AWS='', Val (PStr ''success''),
                        Lit '', SailPoint='', Val (PStr ''success'')]],
       calls = [Call ''entra'' ''delete_entra_user'', Call ''aws'' ''delete_user'',
                Call ''sailpoint'' ''delete_user'']\<rparr>) \<and>
   dict_keys (PDict [(''entra_status'', PStr ''success''), (''aws_status'', PStr ''success''),
                     (''sailpoint_status'', PStr ''success'')]) = outcome_keys Delete"
proof -
  have h: "handler Delete env_mocks alice state0 =
     (Inr (PDict [(''entra_status'', PStr ''success''), (''aws_status'', PStr ''success''),
                  (''sailpoint_status'', PStr ''success'')]),
      \<lparr>audit_log = [LogRecord INFO [Lit ''Deprovisioned user: '', Val (PStr ''alice@example.com''),
                        Lit '', Entra='', Val (PStr ''success''), Lit '', AWS='', Val (PStr ''success''),
                        Lit '', SailPoint='', Val (PStr ''success'')]],
       calls = [Call ''entra'' ''delete_entra_user'', Call ''aws'' ''delete_user'',
                Call ''sailpoint'' ''delete_user'']\<rparr>)"
    by (simp add: alice_def env_mocks_def state0_def deprovision_user_def call_if_present_def
        mock_entra_def mock_aws_def mock_sailpoint_def returns_def logging_def record_call_def
        UserModel_dict_def)
  from backend_outcome_order_fixed [OF h] h show ?thesis by simp
qed

section \<open>C9: the Entra adapter on a schema-valid profile\<close>

text \<open>
  C9. On the dictionary of any profile that validates against \<^verbatim>\<open>UserModel\<close>,
  \<^verbatim>\<open>create_entra_user\<close> never returns: the Entra create path cannot succeed. When it
  comes to build its payload, that is once \<^verbatim>\<open>get_graph_token\<close> has returned, it raises
  \<^verbatim>\<open>KeyError('name')\<close>, whatever the network would have answered to the request that
  follows.
\<close>

theorem create_entra_user_raises_on_valid_profile:
  "(\<exists>e. create_entra_user W (UserModel_dict user) = Inl e) \<and>
   (\<forall>token. get_graph_token W = Inr token \<longrightarrow>
      create_entra_user W (UserModel_dict user) = Inl (KeyError ''name''))"
  by (cases "get_graph_token W") (simp_all add: create_entra_user_def UserModel_dict_name)

theorem create_entra_user_raises_on_valid_profile_witness:
  "get_graph_token (answering (PDict [(''access_token'', PStr ''t'')])) = Inr (PStr ''t'') \<and>
   create_entra_user (answering (PDict [(''access_token'', PStr ''t'')])) (UserModel_dict alice)
     = Inl (KeyError ''name'')"
proof -
  have tok: "get_graph_token (answering (PDict [(''access_token'', PStr ''t'')])) = Inr (PStr ''t'')"
    by (simp add: get_graph_token_def answering_def)
  from create_entra_user_raises_on_valid_profile
         [of "answering (PDict [(''access_token'', PStr ''t'')])" alice] tok
  show ?thesis by blast
qed

section \<open>C10: the policy client and the test of its answer\<close>

text \<open>
  C10 says that \<^verbatim>\<open>enforce_policy\<close> returns a mapping without a truthy \<^verbatim>\<open>allow\<close> whenever
  the policy's result lacks \<^verbatim>\<open>'allow': true\<close>, and that only an explicit
  \<^verbatim>\<open>'allow': true\<close> passes. With the answer \<^verbatim>\<open>{"result": {"allow": "false"}}\<close> the
  function returns a mapping whose \<^verbatim>\<open>allow\<close> is a non-empty string, on which the test of
  \<^verbatim>\<open>provision_user\<close>, \<^verbatim>\<open>not policy_check.get("allow", False)\<close>, does not deny. With the
  answer \<^verbatim>\<open>{"result": null}\<close> it returns \<^verbatim>\<open>None\<close>, no mapping at all, on which the test
  raises \<^verbatim>\<open>AttributeError\<close>.
\<close>

theorem string_allow_passes_the_test:
  "fst (enforce_policy (answering (PDict [(''result'', PDict [(''allow'', PStr ''false'')])])) (UserModel_dict alice))
     = Inr (PDict [(''allow'', PStr ''false'')]) \<and>
   policy_denies (PDict [(''allow'', PStr ''false'')]) = Inr False \<and>
   fst (enforce_policy (answering (PDict [(''result'', PNone)])) (UserModel_dict alice)) = Inr PNone \<and>
   policy_denies PNone
     = Inl (AttributeError (py_quote ''NoneType'' @ '' object has no attribute '' @ py_quote ''get''))"
  by (simp add: enforce_policy_def enforce_policy_body_def answering_def policy_denies_def)

text \<open>
  C10, amended. \<^verbatim>\<open>enforce_policy\<close> returns on every input and in every world, it never
  raises. When the policy service answers an object without the key \<^verbatim>\<open>result\<close> it returns
  the empty mapping; when the object has a \<^verbatim>\<open>result\<close> it returns that value as it is,
  mapping or not. The test of \<^verbatim>\<open>provision_user\<close> on a mapping denies exactly when the
  mapping's \<^verbatim>\<open>allow\<close> is absent or tests false, so every truthy \<^verbatim>\<open>allow\<close>
  (\<^verbatim>\<open>true\<close>, a non-zero number, a non-empty string, list or object) passes, not only the
  literal \<^verbatim>\<open>true\<close>; on a value that is not a mapping (\<^verbatim>\<open>false\<close>, \<^verbatim>\<open>true\<close>,
  \<^verbatim>\<open>null\<close>, a number, a string, a list) the test raises \<^verbatim>\<open>AttributeError\<close>. The
  handler follows the test on whatever the object bound to \<^verbatim>\<open>opa_enforcer\<close> returned: it
  raises what the test raises; it returns the denial, with no adapter called, when the test
  denies; and it returns no denial when the test passes.
\<close>

theorem enforce_policy_total_gate_by_truthiness:
  "(\<exists>v. fst (enforce_policy W u) = Inr v) \<and>
   (requests_post W (opa_request W u) = Inr r \<and> resp_json r = Inr (PDict body) \<and>
      map_of body ''result'' = None \<longrightarrow> fst (enforce_policy W u) = Inr (PDict [])) \<and>
   (\<forall>v. requests_post W (opa_request W u) = Inr r \<and> resp_json r = Inr (PDict body) \<and>
      map_of body ''result'' = Some v \<longrightarrow> fst (enforce_policy W u) = Inr v) \<and>
   policy_denies (PDict d)
     = Inr (\<not> truthy (case map_of d ''allow'' of Some y \<Rightarrow> y | None \<Rightarrow> PBool False)) \<and>
   ((\<forall>d. policy_check \<noteq> PDict d) \<longrightarrow>
      policy_denies policy_check
        = Inl (AttributeError (py_quote (type_name policy_check) @ '' object has no attribute '' @ py_quote ''get''))) \<and>
   (fst (module_call (opa_enforcer E) ''enforce_policy'' (UserModel_dict user)
           (PDict [(''allow'', PBool True)])) = Inr policy_check \<longrightarrow>
      (\<forall>e. policy_denies policy_check = Inl e \<longrightarrow> fst (provision_user E user s) = Inl e) \<and>
      (policy_denies policy_check = Inr True \<longrightarrow>
         (\<exists>reason s'. provision_user E user s
              = (Inr (PDict [(''status'', PStr ''denied''), (''reason'', reason)]), s') \<and>
            backend_calls s' = backend_calls s)) \<and>
      (policy_denies policy_check = Inr False \<longrightarrow>
         (\<forall>reason. fst (provision_user E user s)
              \<noteq> Inr (PDict [(''status'', PStr ''denied''), (''reason'', reason)]))))"
proof (intro conjI allI impI)
  show "\<exists>v. fst (enforce_policy W u) = Inr v"
    by (simp add: enforce_policy_def split: sum.splits)
next
  assume "requests_post W (opa_request W u) = Inr r \<and> resp_json r = Inr (PDict body) \<and>
      map_of body ''result'' = None"
  then show "fst (enforce_policy W u) = Inr (PDict [])"
    by (simp add: enforce_policy_def enforce_policy_body_def opa_request_def)
next
  fix v
  assume "requests_post W (opa_request W u) = Inr r \<and> resp_json r = Inr (PDict body) \<and>
      map_of body ''result'' = Some v"
  then show "fst (enforce_policy W u) = Inr v"
    by (simp add: enforce_policy_def enforce_policy_body_def opa_request_def)
next
  show "policy_denies (PDict d)
     = Inr (\<not> truthy (case map_of d ''allow'' of Some y \<Rightarrow> y | None \<Rightarrow> PBool False))"
    by (simp add: policy_denies_def)
next
  assume "\<forall>d. policy_check \<noteq> PDict d"
  then show "policy_denies policy_check
        = Inl (AttributeError (py_quote (type_name policy_check) @ '' object has no attribute '' @ py_quote ''get''))"
    by (cases policy_check) (simp_all add: policy_denies_def)
next
  fix e
  assume "fst (module_call (opa_enforcer E) ''enforce_policy'' (UserModel_dict user)
           (PDict [(''allow'', PBool True)])) = Inr policy_check"
    and "policy_denies policy_check = Inl e"
  with policy_denies_gate [of E user policy_check s]
  show "fst (provision_user E user s) = Inl e" by blast
next
  assume "fst (module_call (opa_enforcer E) ''enforce_policy'' (UserModel_dict user)
           (PDict [(''allow'', PBool True)])) = Inr policy_check"
    and "policy_denies policy_check = Inr True"
  with policy_denies_gate [of E user policy_check s]
  show "\<exists>reason s'. provision_user E user s
              = (Inr (PDict [(''status'', PStr ''denied''), (''reason'', reason)]), s') \<and>
            backend_calls s' = backend_calls s" by blast
next
  fix reason
  assume "fst (module_call (opa_enforcer E) ''enforce_policy'' (UserModel_dict user)
           (PDict [(''allow'', PBool True)])) = Inr policy_check"
    and "policy_denies policy_check = Inr False"
  with policy_denies_gate [of E user policy_check s]
  show "fst (provision_user E user s)
              \<noteq> Inr (PDict [(''status'', PStr ''denied''), (''reason'', reason)])" by blast
qed

text \<open>
  The theorem at a policy service that answers the empty object, at the value \<^verbatim>\<open>false\<close>,
  and at a Create request for Alice on the stand-ins, whose policy stand-in allows.
\<close>

theorem enforce_policy_total_gate_by_truthiness_witness:
  "requests_post (answering (PDict [])) (opa_request (answering (PDict [])) (UserModel_dict alice))
     = Inr \<lparr>status_code = 200, resp_json = Inr (PDict [])\<rparr> \<and>
   fst (enforce_policy (answering (PDict [])) (UserModel_dict alice)) = Inr (PDict []) \<and>
   policy_denies (PDict []) = Inr True \<and>
   policy_denies (PBool False)
     = Inl (AttributeError (py_quote ''bool'' @ '' object has no attribute '' @ py_quote ''get'')) \<and>
   fst (module_call (opa_enforcer env_mocks) ''enforce_policy'' (UserModel_dict alice)
          (PDict [(''allow'', PBool True)])) = Inr (PDict [(''allow'', PBool True)]) \<and>
   policy_denies (PDict [(''allow'', PBool True)]) = Inr False \<and>
   (\<forall>reason. fst (provision_user env_mocks alice state0)
              \<noteq> Inr (PDict [(''status'', PStr ''denied''), (''reason'', reason)]))"
proof -
  let ?W = "answering (PDict [])"
  let ?r = "\<lparr>status_code = 200, resp_json = Inr (PDict [])\<rparr>"
  have q: "requests_post ?W (opa_request ?W (UserModel_dict alice)) = Inr ?r"
    by (simp add: answering_def)
  have j: "resp_json ?r = Inr (PDict [])" "map_of ([] :: (string \<times> pyval) list) ''result'' = None"
    by simp_all
  have nd: "\<forall>d. PBool False \<noteq> PDict d" by simp
  have m: "fst (module_call (opa_enforcer env_mocks) ''enforce_policy'' (UserModel_dict alice)
          (PDict [(''allow'', PBool True)])) = Inr (PDict [(''allow'', PBool True)])"
    by (simp add: module_call_def env_mocks_def mock_opa_enforcer_def returns_def)
  have a: "fst (enforce_policy ?W (UserModel_dict alice)) = Inr (PDict [])"
    using enforce_policy_total_gate_by_truthiness [of ?W "UserModel_dict alice" ?r "[]"] q j by blast
  have b: "policy_denies (PDict []) = Inr True"
    using enforce_policy_total_gate_by_truthiness [where d = "[]"] by simp
  have c: "policy_denies (PBool False)
     = Inl (AttributeError (py_quote ''bool'' @ '' object has no attribute '' @ py_quote ''get''))"
    using enforce_policy_total_gate_by_truthiness [where policy_check = "PBool False"] nd by simp
  have d: "policy_denies (PDict [(''allow'', PBool True)]) = Inr False"
    using enforce_policy_total_gate_by_truthiness [where d = "[(''allow'', PBool True)]"] by simp
  have e: "\<forall>reason. fst (provision_user env_mocks alice state0)
              \<noteq> Inr (PDict [(''status'', PStr ''denied''), (''reason'', reason)])"
    using enforce_policy_total_gate_by_truthiness
            [where E = env_mocks and user = alice and s = state0
               and policy_check = "PDict [(''allow'', PBool True)]"] m d by blast
  from q a b c m d e show ?thesis by blast
qed

end
